theory Spec2Isabelle
  imports Main
begin

section \<open>Data model\<close>

text \<open>
  The orchestration code of \<^verbatim>\<open>startTransformByQ.ts\<close> works on two process-wide objects,
  \<^verbatim>\<open>transformByQState\<close> and \<^verbatim>\<open>jobPlanProgress\<close>, and on a number of collaborators (remote
  service, file system, chat, telemetry). The two objects become fields of a record
  \<open>World\<close>; every call of a collaborator is appended to the field \<open>trace\<close>, so that
  "was invoked", "exactly once" and "never" are statements about a list of events.
  Logging and the metadata that the code records for telemetry are left out; the
  telemetry events that report an outcome are events of the trace. Remote calls, the
  local tools, the file operations of the dependency prompt, and the last steps of
  \<^verbatim>\<open>postTransformationJob\<close> (the two \<^verbatim>\<open>fs.rmSync\<close> calls and the awaited review command) can
  throw; the other commands of the editor, the context flags, notifications, chat events
  and telemetry are effects that do not.
\<close>

text \<open>
  Modelled from the spec: the class of \<^verbatim>\<open>transformByQState\<close> (models/model.ts) is not part
  of the file. Its status values are the ones the spec lists for \<^verbatim>\<open>JobState.status\<close>.
\<close>

datatype TransformByQStatus =
  NOT_STARTED | RUNNING | PAUSED | SUCCEEDED | PARTIALLY_SUCCEEDED | FAILED | CANCELLED

datatype StepProgress = Pending | Succeeded | Failed

datatype PlanStep = uploadCode | buildCode | generatePlan | transformCode

datatype TransformationType = LANGUAGE_UPGRADE | SQL_CONVERSION

text \<open>
  Exceptions. \<open>Error m\<close> is a plain \<^verbatim>\<open>Error\<close> with message \<open>m\<close> (also what a failing
  collaborator throws); the other constructors are the error classes the file constructs.
  \<open>TransformByQStoppedError\<close> is what \<^verbatim>\<open>throwIfCancelled\<close> raises.
\<close>

datatype error =
    Error string
  | JobStartError
  | ModuleUploadError
  | PollJobError
  | TransformationPreBuildError
  | AlternateDependencyVersionsNotFoundError
  | TransformByQStoppedError

text \<open>
  \<^verbatim>\<open>(err as Error).message\<close>. The message texts of the error classes are defined outside the
  file; the two places that read a message (the catch blocks of the upload and of the job
  start) only ever receive an \<open>Error m\<close> from a collaborator.
\<close>

fun message :: "error \<Rightarrow> string" where
  "message (Error m) = m"
| "message JobStartError = ''JobStartError''"
| "message ModuleUploadError = ''ModuleUploadError''"
| "message PollJobError = ''PollJobError''"
| "message TransformationPreBuildError = ''TransformationPreBuildError''"
| "message AlternateDependencyVersionsNotFoundError = ''AlternateDependencyVersionsNotFoundError''"
| "message TransformByQStoppedError = ''TransformByQStoppedError''"

text \<open>
  The points at which the running task is suspended: every awaited collaborator and every
  \<^verbatim>\<open>sleep\<close>. (\<open>RunMavenDependencyUpdateCommands\<close>, \<open>RemovePayloadFile\<close> and \<open>RemoveBuildLogs\<close>
  are synchronous calls; they are listed because they can throw.)
\<close>

datatype Suspension =
    ZipCode | UploadPayload | UploadCooldown
  | StartJob | StartCooldown
  | PollPlanReady | MakeTemporaryToolkitFolder | DownloadAndExtractResultArchive
  | PollComplete
  | GetTransformationSteps | DownloadHilResultArchive | GetJsonValuesFromManifestFile
  | CreatePomFileCopy | ReplacePomFileVersion | GetCodeIssueSnippetFromPom
  | RunMavenDependencyUpdateCommands | GetDependencyListXmlOutput
  | ParseVersionsListFromPomFile
  | PrepareProjectDependencies | HilZipCode | HilUploadPayload
  | ResumeRejected | ResumeCompleted
  | CleanUpArtifacts | HilSleep
  | StopJob
  | RemovePayloadFile | RemoveBuildLogs | StartReview

datatype event =
    Remote Suspension string
  | Command string
  | SetContext string bool
  | ShowInformationMessage string
  | ShowErrorMessage string
  | SetInterval nat
  | ClearInterval "nat option"
  | UpdateJobHistory
  | ErrorThrown error
  | HumanInTheLoopStartIntervention
  | HumanInTheLoopPromptUserForDependency
  | HumanInTheLoopSelectionUploaded
  | HumanInTheLoopTelemetry string bool
  | TransformationFinished "string option"
  | TotalRunTime TransformByQStatus string bool
  | RemoveFile string
  | ResetCodeTransformMetaDataField

text \<open>
  Modelled from the spec: the fields of \<^verbatim>\<open>transformByQState\<close> that the file reads and writes
  through getters and setters. The two failure texts are \<^verbatim>\<open>string | undefined\<close>.
\<close>

record JobState =
  status :: TransformByQStatus
  jobId :: string
  polledJobStatus :: string
  transformationType :: TransformationType
  sourceJDKVersion :: string
  targetJDKVersion :: string
  projectPath :: string
  payloadFilePath :: string
  preBuildLogFilePath :: string
  jobFailureErrorNotification :: "string option"
  jobFailureErrorChatMessage :: "string option"
  intervalId :: "nat option"
  hasSeenTransforming :: bool

record World =
  transformByQState :: JobState
  jobPlanProgress :: "PlanStep \<Rightarrow> StepProgress"
  activeIntervals :: "nat list"
  detachedRetries :: "string list"
  trace :: "event list"

text \<open>
  The texts of \<^verbatim>\<open>CodeWhispererConstants\<close> and the sentinel \<^verbatim>\<open>dependencyNoAvailableVersions\<close>
  are defined outside the file: they are a parameter of every function that uses them.
  So is \<^verbatim>\<open>String.prototype.toLowerCase\<close> of the platform (the field \<open>toLowerCase\<close>): the file
  calls it once, on the message of a failed job start, and nothing is assumed of it.
\<close>

record Constants =
  jobStartedNotification :: string
  failedToUploadProjectNotification :: string
  failedToUploadProjectChatMessage :: string
  failedToStartJobNotification :: string
  failedToStartJobChatMessage :: string
  tooManyJobsNotification :: string
  tooManyJobsChatMessage :: string
  linesOfCodeLimitBreachedNotification :: string
  linesOfCodeLimitBreachedChatMessage :: string
  failedToCompleteJobNotification :: string
  failedToCompleteJobChatMessage :: string
  jobCompletedChatMessage :: string
  jobPartiallyCompletedChatMessage :: string
  jobCompletedNotification :: string
  jobPartiallyCompletedNotification :: string
  upgradeLibrariesMessage :: string
  jobCancelledNotification :: string
  errorStoppingJobNotification :: string
  dependencyNoAvailableVersions :: string
  toLowerCase :: "string \<Rightarrow> string"

text \<open>
  What the collaborators do in one stretch of the run: which calls throw (and with which
  message), what the successful ones return, and at which suspension points the user
  presses "stop" (\<^verbatim>\<open>stopTransformByQ\<close> then runs while the task is suspended there).
\<close>

record Env =
  throws :: "Suspension \<Rightarrow> string option"
  cancelAt :: "Suspension \<Rightarrow> bool"
  zipTempFilePath :: string
  uploadIdReturned :: string
  jobIdReturned :: string
  planPollStatus :: string
  tempToolkitFolder :: string
  buildLogExists :: bool
  buildLogsTxtExists :: bool
  completePollStatus :: string
  downloadArtifactStepFound :: bool
  artifactId :: "string option"
  artifactType :: "string option"
  versionsStatus :: string

section \<open>Control flow: exceptions, try/catch/finally\<close>

type_synonym 'a M = "World \<Rightarrow> (error + 'a) \<times> World"

definition ret :: "'a \<Rightarrow> 'a M" where
  "ret x = (\<lambda>w. (Inr x, w))"

definition throw :: "error \<Rightarrow> 'a M" where
  "throw e = (\<lambda>w. (Inl e, w))"

definition bind :: "'a M \<Rightarrow> ('a \<Rightarrow> 'b M) \<Rightarrow> 'b M" where
  "bind m f = (\<lambda>w. case m w of (Inl e, w') \<Rightarrow> (Inl e, w') | (Inr x, w') \<Rightarrow> f x w')"

definition seq :: "'a M \<Rightarrow> 'b M \<Rightarrow> 'b M" where
  "seq m n = bind m (\<lambda>_. n)"

definition try_catch :: "'a M \<Rightarrow> (error \<Rightarrow> 'a M) \<Rightarrow> 'a M" where
  "try_catch m h = (\<lambda>w. case m w of (Inl e, w') \<Rightarrow> h e w' | (Inr x, w') \<Rightarrow> (Inr x, w'))"

text \<open>
  \<^verbatim>\<open>try { m } finally { f }\<close>: the finalizer always runs; if it throws, its error replaces
  the outcome of the body.
\<close>

definition try_finally :: "'a M \<Rightarrow> unit M \<Rightarrow> 'a M" where
  "try_finally m f =
     (\<lambda>w. case m w of (r, w') \<Rightarrow>
        (case f w' of (Inl e, w'') \<Rightarrow> (Inl e, w'') | (Inr _, w'') \<Rightarrow> (r, w'')))"

text \<open>The outcome of a block as a value, for code that inspects it.\<close>

definition attempt :: "'a M \<Rightarrow> (error + 'a) M" where
  "attempt m = (\<lambda>w. case m w of (r, w') \<Rightarrow> (Inr r, w'))"

text \<open>A sequence of statements.\<close>

fun block :: "unit M list \<Rightarrow> unit M" where
  "block [] = ret ()"
| "block (m # ms) = seq m (block ms)"

definition cond :: "(World \<Rightarrow> bool) \<Rightarrow> 'a M \<Rightarrow> 'a M \<Rightarrow> 'a M" where
  "cond b m n = (\<lambda>w. if b w then m w else n w)"

definition whenever :: "(World \<Rightarrow> bool) \<Rightarrow> unit M \<Rightarrow> unit M" where
  "whenever b m = cond b m (ret ())"

definition modify :: "(World \<Rightarrow> World) \<Rightarrow> unit M" where
  "modify f = (\<lambda>w. (Inr (), f w))"

definition emit :: "event \<Rightarrow> unit M" where
  "emit ev = modify (\<lambda>w. w\<lparr>trace := trace w @ [ev]\<rparr>)"

text \<open>Reading the current state: of the world, or of a field of \<^verbatim>\<open>transformByQState\<close>.\<close>

definition inspect :: "(World \<Rightarrow> 'a) \<Rightarrow> ('a \<Rightarrow> 'b M) \<Rightarrow> 'b M" where
  "inspect f k = (\<lambda>w. k (f w) w)"

definition reading :: "(JobState \<Rightarrow> 'a) \<Rightarrow> ('a \<Rightarrow> 'b M) \<Rightarrow> 'b M" where
  "reading f k = inspect (\<lambda>w. f (transformByQState w)) k"

definition onState :: "(JobState \<Rightarrow> JobState) \<Rightarrow> unit M" where
  "onState f = modify (\<lambda>w. w\<lparr>transformByQState := f (transformByQState w)\<rparr>)"

text \<open>JavaScript truthiness of a \<^verbatim>\<open>string | undefined\<close>: \<^verbatim>\<open>!x\<close> holds for undefined and for the empty string.\<close>

definition falsy :: "string option \<Rightarrow> bool" where
  "falsy x = (case x of None \<Rightarrow> True | Some s \<Rightarrow> s = [])"

text \<open>\<^verbatim>\<open>x ?? d\<close>: only undefined is replaced.\<close>

definition nullish :: "string option \<Rightarrow> string \<Rightarrow> string" where
  "nullish x d = (case x of None \<Rightarrow> d | Some s \<Rightarrow> s)"

text \<open>\<^verbatim>\<open>String.prototype.includes\<close>.\<close>

fun includes_str :: "string \<Rightarrow> string \<Rightarrow> bool" where
  "includes_str [] sub = (sub = [])"
| "includes_str (c # cs) sub = (take (length sub) (c # cs) = sub \<or> includes_str cs sub)"

section \<open>The job state object\<close>

text \<open>
  Modelled from the spec: the getters and setters of \<^verbatim>\<open>transformByQState\<close>. Each setter
  assigns its field; \<^verbatim>\<open>setJobDefaults\<close> resets the object to its idle defaults.
\<close>

definition isCancelled :: "World \<Rightarrow> bool" where
  "isCancelled w = (status (transformByQState w) = CANCELLED)"

definition isRunning :: "World \<Rightarrow> bool" where
  "isRunning w = (status (transformByQState w) = RUNNING)"

definition isSucceeded :: "World \<Rightarrow> bool" where
  "isSucceeded w = (status (transformByQState w) = SUCCEEDED)"

definition isPartiallySucceeded :: "World \<Rightarrow> bool" where
  "isPartiallySucceeded w = (status (transformByQState w) = PARTIALLY_SUCCEEDED)"

definition setStatus :: "TransformByQStatus \<Rightarrow> unit M" where
  "setStatus st = onState (\<lambda>s. s\<lparr>status := st\<rparr>)"

definition setJobId :: "string \<Rightarrow> unit M" where
  "setJobId j = onState (\<lambda>s. s\<lparr>jobId := j\<rparr>)"

definition setPolledJobStatus :: "string \<Rightarrow> unit M" where
  "setPolledJobStatus p = onState (\<lambda>s. s\<lparr>polledJobStatus := p\<rparr>)"

definition setPayloadFilePath :: "string \<Rightarrow> unit M" where
  "setPayloadFilePath p = onState (\<lambda>s. s\<lparr>payloadFilePath := p\<rparr>)"

definition setPreBuildLogFilePath :: "string \<Rightarrow> unit M" where
  "setPreBuildLogFilePath p = onState (\<lambda>s. s\<lparr>preBuildLogFilePath := p\<rparr>)"

definition setJobFailureErrorNotification :: "string \<Rightarrow> unit M" where
  "setJobFailureErrorNotification n = onState (\<lambda>s. s\<lparr>jobFailureErrorNotification := Some n\<rparr>)"

definition setJobFailureErrorChatMessage :: "string \<Rightarrow> unit M" where
  "setJobFailureErrorChatMessage n = onState (\<lambda>s. s\<lparr>jobFailureErrorChatMessage := Some n\<rparr>)"

definition setHasSeenTransforming :: "bool \<Rightarrow> unit M" where
  "setHasSeenTransforming b = onState (\<lambda>s. s\<lparr>hasSeenTransforming := b\<rparr>)"

definition setIntervalId :: "nat \<Rightarrow> unit M" where
  "setIntervalId i = onState (\<lambda>s. s\<lparr>intervalId := Some i\<rparr>)"

definition idleDefaults :: JobState where
  "idleDefaults =
     \<lparr>status = NOT_STARTED, jobId = [], polledJobStatus = [],
      transformationType = LANGUAGE_UPGRADE, sourceJDKVersion = [], targetJDKVersion = [],
      projectPath = [], payloadFilePath = [], preBuildLogFilePath = [],
      jobFailureErrorNotification = None, jobFailureErrorChatMessage = None,
      intervalId = None, hasSeenTransforming = False\<rparr>"

definition setJobDefaults :: "unit M" where
  "setJobDefaults = onState (\<lambda>_. idleDefaults)"

definition setProgress :: "PlanStep \<Rightarrow> StepProgress \<Rightarrow> unit M" where
  "setProgress k v = modify (\<lambda>w. w\<lparr>jobPlanProgress := (jobPlanProgress w)(k := v)\<rparr>)"

text \<open>
  Modelled from the spec: \<^verbatim>\<open>throwIfCancelled\<close> (transformApiHandler.ts), the cooperative
  cancellation check.
\<close>

definition throwIfCancelled :: "unit M" where
  "throwIfCancelled = cond isCancelled (throw TransformByQStoppedError) (ret ())"

section \<open>Collaborators\<close>

text \<open>
  A call of a collaborator is recorded in the trace and then throws or returns as the
  environment says. \<open>invoke\<close> is a call during which the task cannot be cancelled (a
  synchronous call, or the stop call itself); \<open>await\<close> is a suspension point.
\<close>

definition invoke :: "Env \<Rightarrow> Suspension \<Rightarrow> string \<Rightarrow> unit M" where
  "invoke env p arg =
     seq (emit (Remote p arg))
         (case throws env p of None \<Rightarrow> ret () | Some m \<Rightarrow> throw (Error m))"

text \<open>
  A call of the file system or of the editor that can fail: the effect \<open>ev\<close> is recorded,
  then the call throws or returns as the environment says for \<open>p\<close>.
\<close>

definition fallible :: "Env \<Rightarrow> Suspension \<Rightarrow> event \<Rightarrow> unit M" where
  "fallible env p ev =
     seq (emit ev)
         (case throws env p of None \<Rightarrow> ret () | Some m \<Rightarrow> throw (Error m))"

text \<open>Modelled from the spec: \<^verbatim>\<open>stopJob(jobId)\<close> of the remote service.\<close>

definition stopJob :: "Env \<Rightarrow> string \<Rightarrow> unit M" where
  "stopJob env jobID = invoke env StopJob jobID"

definition stopTransformByQ :: "Constants \<Rightarrow> Env \<Rightarrow> string \<Rightarrow> unit M" where
  "stopTransformByQ C env jobID =
     whenever isRunning
       (block
         [setStatus CANCELLED,
          setPolledJobStatus ''CANCELLED'',
          emit (SetContext ''gumby.isStopButtonAvailable'' False),
          try_catch
            (block [stopJob env jobID, emit (ShowErrorMessage (jobCancelledNotification C))])
            (\<lambda>err. emit (ShowErrorMessage (errorStoppingJobNotification C)))])"

text \<open>
  While the task is suspended at \<open>p\<close>, the user's stop request (if the environment has one
  there) is served: \<^verbatim>\<open>stopTransformByQ\<close> with the current job id. It runs as a task of its
  own, so nothing it throws reaches the suspended task.
\<close>

definition suspended :: "Constants \<Rightarrow> Env \<Rightarrow> Suspension \<Rightarrow> unit M" where
  "suspended C env p =
     (if cancelAt env p
      then reading jobId (\<lambda>jobID. try_catch (stopTransformByQ C env jobID) (\<lambda>err. ret ()))
      else ret ())"

definition await :: "Constants \<Rightarrow> Env \<Rightarrow> Suspension \<Rightarrow> string \<Rightarrow> unit M" where
  "await C env p arg =
     block
       [emit (Remote p arg),
        suspended C env p,
        (case throws env p of None \<Rightarrow> ret () | Some m \<Rightarrow> throw (Error m))]"

definition sleep :: "Constants \<Rightarrow> Env \<Rightarrow> Suspension \<Rightarrow> unit M" where
  "sleep C env p = suspended C env p"

text \<open>
  Modelled from the spec: the collaborators of transformApiHandler.ts with a result. The
  remote start is what assigns the job id of \<^verbatim>\<open>transformByQState\<close> (empty until then); the
  polling engine does not write the job state.
\<close>

definition zipCode :: "Constants \<Rightarrow> Env \<Rightarrow> string M" where
  "zipCode C env =
     reading projectPath (\<lambda>p. seq (await C env ZipCode p) (ret (zipTempFilePath env)))"

definition uploadPayload :: "Constants \<Rightarrow> Env \<Rightarrow> string \<Rightarrow> string M" where
  "uploadPayload C env payloadFileName =
     seq (await C env UploadPayload payloadFileName) (ret (uploadIdReturned env))"

definition startJob :: "Constants \<Rightarrow> Env \<Rightarrow> string \<Rightarrow> string M" where
  "startJob C env uploadId =
     seq (await C env StartJob uploadId)
         (seq (setJobId (jobIdReturned env)) (ret (jobIdReturned env)))"

definition pollTransformationJob :: "Constants \<Rightarrow> Env \<Rightarrow> Suspension \<Rightarrow> string \<Rightarrow> string M" where
  "pollTransformationJob C env target jobID =
     seq (await C env target jobID)
         (ret (if target = PollPlanReady then planPollStatus env else completePollStatus env))"

definition resumeTransformationJob :: "Constants \<Rightarrow> Env \<Rightarrow> string \<Rightarrow> string \<Rightarrow> unit M" where
  "resumeTransformationJob C env jobID userActionStatus =
     await C env (if userActionStatus = ''REJECTED'' then ResumeRejected else ResumeCompleted) jobID"

text \<open>\<^verbatim>\<open>path.join\<close> of two segments.\<close>

definition join :: "string \<Rightarrow> string \<Rightarrow> string" where
  "join a b = a @ ''/'' @ b"

text \<open>\<^verbatim>\<open>setInterval\<close> and \<^verbatim>\<open>clearInterval\<close>: timers are the list of active interval ids.\<close>

definition freshInterval :: "nat list \<Rightarrow> nat" where
  "freshInterval xs = Suc (fold max xs 0)"

definition clearInterval :: "nat option \<Rightarrow> unit M" where
  "clearInterval i =
     block
       [emit (ClearInterval i),
        modify (\<lambda>w. w\<lparr>activeIntervals :=
                  (case i of None \<Rightarrow> activeIntervals w | Some n \<Rightarrow> removeAll n (activeIntervals w))\<rparr>)]"

text \<open>
  \<^verbatim>\<open>void humanInTheLoopRetryLogic(jobId, profile)\<close>: the call is started and not awaited. The
  caller goes on; the started loop is queued and run by \<open>runDetached\<close> below.
\<close>

definition detach :: "string \<Rightarrow> unit M" where
  "detach jobID = modify (\<lambda>w. w\<lparr>detachedRetries := detachedRetries w @ [jobID]\<rparr>)"

section \<open>The operations of startTransformByQ.ts\<close>

definition startInterval :: "unit M" where
  "startInterval =
     inspect (\<lambda>w. freshInterval (activeIntervals w)) (\<lambda>intervalID.
       block
         [emit (SetInterval intervalID),
          modify (\<lambda>w. w\<lparr>activeIntervals := intervalID # activeIntervals w\<rparr>),
          setIntervalId intervalID])"

definition preTransformationUploadCode :: "Constants \<Rightarrow> Env \<Rightarrow> string M" where
  "preTransformationUploadCode C env =
     seq (block
            [emit (Command ''aws.amazonq.transformationHub.focus''),
             emit (ShowInformationMessage (jobStartedNotification C)),
             throwIfCancelled])
     (bind
        (try_catch
           (bind (zipCode C env) (\<lambda>payloadFilePath.
              seq (setPayloadFilePath payloadFilePath)
                  (uploadPayload C env payloadFilePath)))
           (\<lambda>err. let errorMessage = message err in
              seq (block
                     [setJobFailureErrorNotification
                        (failedToUploadProjectNotification C @ '' '' @ errorMessage),
                      setJobFailureErrorChatMessage
                        (failedToUploadProjectChatMessage C @ '' '' @ errorMessage),
                      emit (ErrorThrown ModuleUploadError)])
                  (throw err)))
        (\<lambda>uploadId.
           seq (block [throwIfCancelled, sleep C env UploadCooldown]) (ret uploadId)))"

definition terminateHILEarly :: "Constants \<Rightarrow> Env \<Rightarrow> string \<Rightarrow> unit M" where
  "terminateHILEarly C env jobID = resumeTransformationJob C env jobID ''REJECTED''"

text \<open>
  \<^verbatim>\<open>initiateHumanInTheLoopPrompt\<close>, with its \<^verbatim>\<open>try\<close> block and its \<^verbatim>\<open>catch\<close> block as
  definitions of their own. The \<^verbatim>\<open>try\<close> block falls through to \<^verbatim>\<open>return false\<close>, the \<^verbatim>\<open>catch\<close>
  block returns true, and the \<^verbatim>\<open>finally\<close> block runs after either.
\<close>

definition initiateHumanInTheLoopPrompt_try :: "Constants \<Rightarrow> Env \<Rightarrow> string \<Rightarrow> unit M" where
  "initiateHumanInTheLoopPrompt_try C env jobID =
     block
       [await C env GetTransformationSteps jobID,
        (if \<not> downloadArtifactStepFound env
         then throw (Error ''Transformation step or progress update is undefined'')
         else ret ()),
        (if falsy (artifactId env) \<or> falsy (artifactType env)
         then throw (Error ''artifactId or artifactType is undefined'')
         else ret ()),
        await C env DownloadHilResultArchive jobID,
        await C env GetJsonValuesFromManifestFile [],
        await C env CreatePomFileCopy [],
        await C env ReplacePomFileVersion [],
        await C env GetCodeIssueSnippetFromPom [],
        emit HumanInTheLoopStartIntervention,
        invoke env RunMavenDependencyUpdateCommands [],
        await C env GetDependencyListXmlOutput [],
        await C env ParseVersionsListFromPomFile [],
        (if versionsStatus env = dependencyNoAvailableVersions C
         then seq (emit (ErrorThrown AlternateDependencyVersionsNotFoundError))
                  (throw AlternateDependencyVersionsNotFoundError)
         else ret ()),
        emit HumanInTheLoopPromptUserForDependency]"

definition initiateHumanInTheLoopPrompt_catch ::
  "Constants \<Rightarrow> Env \<Rightarrow> string \<Rightarrow> error \<Rightarrow> bool M" where
  "initiateHumanInTheLoopPrompt_catch C env jobID err =
     seq (block
            [try_finally (terminateHILEarly C env jobID) (emit (ErrorThrown err)),
             await C env CleanUpArtifacts []])
         (ret True)"

definition initiateHumanInTheLoopPrompt :: "Constants \<Rightarrow> Env \<Rightarrow> string \<Rightarrow> bool M" where
  "initiateHumanInTheLoopPrompt C env jobID =
     try_finally
       (try_catch
          (seq (initiateHumanInTheLoopPrompt_try C env jobID) (ret False))
          (initiateHumanInTheLoopPrompt_catch C env jobID))
       (block [sleep C env HilSleep, emit (HumanInTheLoopTelemetry jobID False)])"

definition startTransformationJob :: "Constants \<Rightarrow> Env \<Rightarrow> string \<Rightarrow> string M" where
  "startTransformationJob C env uploadId =
     bind
       (try_catch
          (startJob C env uploadId)
          (\<lambda>error. let errorMessage = toLowerCase C (message error) in
             seq (if includes_str errorMessage ''too many active running jobs'' then
                    block
                      [setJobFailureErrorNotification (tooManyJobsNotification C),
                       setJobFailureErrorChatMessage (tooManyJobsChatMessage C)]
                  else if includes_str errorMessage ''lines of code limit breached'' then
                    block
                      [setJobFailureErrorNotification (linesOfCodeLimitBreachedNotification C),
                       setJobFailureErrorChatMessage (linesOfCodeLimitBreachedChatMessage C)]
                  else
                    block
                      [setJobFailureErrorNotification
                         (failedToStartJobNotification C @ '' '' @ errorMessage),
                       setJobFailureErrorChatMessage
                         (failedToStartJobChatMessage C @ '' '' @ errorMessage)])
                 (throw JobStartError)))
       (\<lambda>jobID. seq (block [sleep C env StartCooldown, throwIfCancelled]) (ret jobID))"

text \<open>The two guarded writes that the polling functions and the finalization share.\<close>

definition setGenericFailureTextsIfUnset :: "Constants \<Rightarrow> unit M" where
  "setGenericFailureTextsIfUnset C =
     block
       [whenever (\<lambda>w. falsy (jobFailureErrorNotification (transformByQState w)))
          (setJobFailureErrorNotification (failedToCompleteJobNotification C)),
        whenever (\<lambda>w. falsy (jobFailureErrorChatMessage (transformByQState w)))
          (setJobFailureErrorChatMessage (failedToCompleteJobChatMessage C))]"

definition pollTransformationStatusUntilPlanReady :: "Constants \<Rightarrow> Env \<Rightarrow> string \<Rightarrow> unit M" where
  "pollTransformationStatusUntilPlanReady C env jobID =
     seq
       (try_catch
          (seq (pollTransformationJob C env PollPlanReady jobID) (ret ()))
          (\<lambda>error.
             seq (setGenericFailureTextsIfUnset C)
               (bind
                  (try_catch
                     (seq (await C env MakeTemporaryToolkitFolder [])
                        (let tempBuildLogsDir =
                               join (tempToolkitFolder env) ''q-transformation-build-logs''
                         in seq (await C env DownloadAndExtractResultArchive jobID)
                              (let pathToLog = join tempBuildLogsDir ''buildCommandOutput.log''
                               in seq (setPreBuildLogFilePath pathToLog) (ret pathToLog))))
                     (\<lambda>e. seq (setPreBuildLogFilePath []) (throw e)))
                  (\<lambda>pathToLog.
                     cond (\<lambda>w. buildLogExists env \<and> \<not> isCancelled w)
                       (throw TransformationPreBuildError)
                       (seq (setPreBuildLogFilePath []) (throw PollJobError))))))
       (cond (\<lambda>w. transformationType (transformByQState w) = SQL_CONVERSION)
          (ret ())
          (block [setProgress generatePlan Succeeded, throwIfCancelled]))"

definition pollTransformationStatusUntilComplete :: "Constants \<Rightarrow> Env \<Rightarrow> string \<Rightarrow> string M" where
  "pollTransformationStatusUntilComplete C env jobID =
     try_catch
       (pollTransformationJob C env PollComplete jobID)
       (\<lambda>error. seq (setGenericFailureTextsIfUnset C) (throw PollJobError))"

definition finalizeTransformationJob :: "Constants \<Rightarrow> string \<Rightarrow> unit M" where
  "finalizeTransformationJob C st =
     (if \<not> (st = ''COMPLETED'' \<or> st = ''PARTIALLY_COMPLETED'') then
        block
          [setProgress transformCode Failed,
           setGenericFailureTextsIfUnset C,
           throw (Error ''Job was not successful nor partially successful'')]
      else
        block
          [setStatus SUCCEEDED,
           (if st = ''PARTIALLY_COMPLETED'' then setStatus PARTIALLY_SUCCEEDED else ret ()),
           emit (Command ''aws.amazonq.transformationHub.reviewChanges.reveal''),
           setProgress transformCode Succeeded])"

definition transformationJobErrorHandler :: "Constants \<Rightarrow> Env \<Rightarrow> error \<Rightarrow> unit M" where
  "transformationJobErrorHandler C env error =
     block
       [cond (\<lambda>w. \<not> isCancelled w)
          (block
             [reading jobId (stopJob env),
              setStatus FAILED,
              setPolledJobStatus ''FAILED'',
              reading jobFailureErrorNotification (\<lambda>notification.
                let displayedErrorMessage =
                      nullish notification (failedToCompleteJobNotification C)
                in block
                     [reading jobFailureErrorChatMessage (\<lambda>chatMessage.
                        setJobFailureErrorChatMessage
                          (nullish chatMessage (failedToCompleteJobChatMessage C))),
                      emit (ShowErrorMessage displayedErrorMessage)])])
          (block [setStatus CANCELLED, setPolledJobStatus ''CANCELLED'']),
        emit (ErrorThrown error)]"

definition finalizeTransformByQ :: "Constants \<Rightarrow> Env \<Rightarrow> string \<Rightarrow> unit M" where
  "finalizeTransformByQ C env st =
     try_catch
       (finalizeTransformationJob C st)
       (\<lambda>error. transformationJobErrorHandler C env error)"

definition humanInTheLoopRetryLogic :: "Constants \<Rightarrow> Env \<Rightarrow> string \<Rightarrow> unit M" where
  "humanInTheLoopRetryLogic C env jobID =
     try_catch
       (bind (pollTransformationStatusUntilComplete C env jobID) (\<lambda>st.
          if st = ''PAUSED'' then
            bind (initiateHumanInTheLoopPrompt C env jobID) (\<lambda>hilStatusFailure.
              if hilStatusFailure then detach jobID else ret ())
          else finalizeTransformByQ C env st))
       (\<lambda>error. seq (finalizeTransformByQ C env ''FAILED'') (throw error))"

text \<open>
  \<^verbatim>\<open>finishHumanInTheLoop\<close>, with its \<^verbatim>\<open>try\<close> block as a definition of its own. The \<^verbatim>\<open>catch\<close>
  block sets the result that the \<^verbatim>\<open>finally\<close> block reports, so the two outcomes of the
  \<^verbatim>\<open>try\<close> block are written out.
\<close>

definition finishHumanInTheLoop_try ::
  "Constants \<Rightarrow> Env \<Rightarrow> string \<Rightarrow> string option \<Rightarrow> unit M" where
  "finishHumanInTheLoop_try C env jobID selectedDependency =
     block
       [(if falsy selectedDependency then throw (Error ''No dependency selected'')
         else ret ()),
        await C env CreatePomFileCopy [],
        await C env ReplacePomFileVersion [],
        await C env PrepareProjectDependencies [],
        await C env HilZipCode [],
        await C env HilUploadPayload jobID,
        emit HumanInTheLoopSelectionUploaded,
        resumeTransformationJob C env jobID ''COMPLETED'',
        detach jobID]"

definition finishHumanInTheLoop :: "Constants \<Rightarrow> Env \<Rightarrow> string option \<Rightarrow> bool M" where
  "finishHumanInTheLoop C env selectedDependency =
     reading jobId (\<lambda>jobID.
       let finalizer = (\<lambda>hilResult.
             block [emit (HumanInTheLoopTelemetry jobID hilResult), await C env CleanUpArtifacts []])
       in
       bind
         (attempt (finishHumanInTheLoop_try C env jobID selectedDependency))
         (\<lambda>outcome. case outcome of
              Inr _ \<Rightarrow> seq (finalizer True) (ret True)
            | Inl err \<Rightarrow>
                seq (try_finally
                       (block [terminateHILEarly C env jobID, detach jobID])
                       (finalizer False))
                    (ret False)))"

definition setContextVariables :: "unit M" where
  "setContextVariables =
     block
       [emit (SetContext ''gumby.wasQCodeTransformationUsed'' True),
        emit (SetContext ''gumby.isStopButtonAvailable'' True),
        emit (SetContext ''gumby.isPlanAvailable'' False),
        emit (SetContext ''gumby.isSummaryAvailable'' False)]"

text \<open>
  Of the state that \<^verbatim>\<open>setTransformationToRunningState\<close> resets, the plan steps shown in the
  hub, the job history of the session and the start time are not part of the model. Its
  awaited calls of the editor (the context flags and the two commands) are effects that
  return.
\<close>

definition setTransformationToRunningState :: "unit M" where
  "setTransformationToRunningState =
     block
       [setContextVariables,
        emit (Command ''aws.amazonq.transformationHub.reviewChanges.reset''),
        setStatus RUNNING,
        setProgress uploadCode Pending,
        setProgress buildCode Pending,
        setProgress generatePlan Pending,
        setProgress transformCode Pending,
        setJobId [],
        setPolledJobStatus [],
        setHasSeenTransforming False,
        emit (Command ''workbench.view.extension.aws-codewhisperer-transformation-hub'')]"

text \<open>\<^verbatim>\<open>chatMessage += text\<close> on a \<^verbatim>\<open>string | undefined\<close>.\<close>

definition plusAssign :: "string option \<Rightarrow> string \<Rightarrow> string option" where
  "plusAssign x t = Some ((case x of None \<Rightarrow> ''undefined'' | Some s \<Rightarrow> s) @ t)"

text \<open>
  \<^verbatim>\<open>postTransformationJob\<close>, in two parts: the plan steps, then the report of the outcome
  (chat message, telemetry, notification, removal of the temporary files, review). Each
  \<^verbatim>\<open>fs.rmSync(path, { force: true })\<close> throws when the file cannot be removed (\<^verbatim>\<open>force\<close> only
  silences a missing file), and the awaited review command can reject. The review command
  runs only when the run has succeeded, so a stop request that arrives while it is
  awaited finds no running job and does nothing.
\<close>

definition postTransformationJob_report :: "Constants \<Rightarrow> Env \<Rightarrow> unit M" where
  "postTransformationJob_report C env =
     inspect id (\<lambda>w.
       let s = transformByQState w;
           versionsDiffer = (sourceJDKVersion s \<noteq> targetJDKVersion s);
           chatMessage0 =
             (if isSucceeded w then Some (jobCompletedChatMessage C)
              else if isPartiallySucceeded w then Some (jobPartiallyCompletedChatMessage C)
              else jobFailureErrorChatMessage s);
           chatMessage =
             (if versionsDiffer then plusAssign chatMessage0 (upgradeLibrariesMessage C)
              else chatMessage0)
       in block
            [emit (TransformationFinished chatMessage),
             emit (TotalRunTime (status s) (polledJobStatus s)
                     (isSucceeded w \<or> isPartiallySucceeded w)),
             (if isSucceeded w then
                emit (ShowInformationMessage
                        (jobCompletedNotification C
                           @ (if versionsDiffer then upgradeLibrariesMessage C else [])))
              else if isPartiallySucceeded w then
                emit (ShowInformationMessage
                        (jobPartiallyCompletedNotification C
                           @ (if versionsDiffer then upgradeLibrariesMessage C else [])))
              else ret ()),
             (if payloadFilePath s \<noteq> [] then
                fallible env RemovePayloadFile (RemoveFile (payloadFilePath s))
              else ret ()),
             (if buildLogsTxtExists env then
                fallible env RemoveBuildLogs (RemoveFile ''build-logs.txt'')
              else ret ()),
             (if isSucceeded w \<or> isPartiallySucceeded w then
                fallible env StartReview
                  (Command ''aws.amazonq.transformationHub.reviewChanges.startReview'')
              else ret ())])"

definition postTransformationJob :: "Constants \<Rightarrow> Env \<Rightarrow> unit M" where
  "postTransformationJob C env =
     block
       [emit UpdateJobHistory,
        whenever (\<lambda>w. jobPlanProgress w uploadCode \<noteq> Succeeded) (setProgress uploadCode Failed),
        whenever (\<lambda>w. jobPlanProgress w buildCode \<noteq> Succeeded) (setProgress buildCode Failed),
        whenever (\<lambda>w. jobPlanProgress w generatePlan \<noteq> Succeeded) (setProgress generatePlan Failed),
        whenever (\<lambda>w. jobPlanProgress w transformCode \<noteq> Succeeded) (setProgress transformCode Failed),
        postTransformationJob_report C env]"

definition cleanupTransformationJob :: "unit M" where
  "cleanupTransformationJob =
     block
       [reading intervalId clearInterval,
        setJobDefaults,
        emit (SetContext ''gumby.isStopButtonAvailable'' False),
        emit (Command ''aws.amazonq.showPlanProgressInHub''),
        emit ResetCodeTransformMetaDataField]"

definition startTransformByQ :: "Constants \<Rightarrow> Env \<Rightarrow> unit M" where
  "startTransformByQ C env =
     seq setTransformationToRunningState
       (try_finally
          (try_catch
             (seq startInterval
                (bind (preTransformationUploadCode C env) (\<lambda>uploadId.
                   bind (startTransformationJob C env uploadId) (\<lambda>jobID.
                     seq (pollTransformationStatusUntilPlanReady C env jobID)
                         (humanInTheLoopRetryLogic C env jobID)))))
             (\<lambda>error. transformationJobErrorHandler C env error))
          (block [postTransformationJob C env, cleanupTransformationJob]))"

text \<open>
  The detached retry loops. Each one continues when the remote service answers its poll;
  \<open>envs\<close> lists what the collaborators do in the successive rounds. A loop whose poll is
  never answered does not return: the result is \<open>None\<close>. An exception of a detached loop
  has no handler and is dropped.
\<close>

fun runDetached :: "Constants \<Rightarrow> Env list \<Rightarrow> World \<Rightarrow> World option" where
  "runDetached C [] w = (if detachedRetries w = [] then Some w else None)"
| "runDetached C (env # envs) w =
     (case detachedRetries w of
        [] \<Rightarrow> Some w
      | jobID # rest \<Rightarrow>
          runDetached C envs
            (snd (humanInTheLoopRetryLogic C env jobID (w\<lparr>detachedRetries := rest\<rparr>))))"

section \<open>Reasoning about runs\<close>

text \<open>
  \<open>preserves I m\<close>: whatever \<open>m\<close> does and however it ends (normally or with an
  exception), a world that satisfies \<open>I\<close> still satisfies it afterwards.
\<close>

definition preserves :: "(World \<Rightarrow> bool) \<Rightarrow> 'a M \<Rightarrow> bool" where
  "preserves I m = (\<forall>w. I w \<longrightarrow> I (snd (m w)))"

text \<open>
  \<open>triple P m Q E\<close>: started in a world that satisfies \<open>P\<close>, the block \<open>m\<close> either returns
  \<open>x\<close> in a world that satisfies \<open>Q x\<close>, or throws \<open>e\<close> in a world that satisfies \<open>E e\<close>.
  \<open>returns m\<close>: the block never throws.
\<close>

definition triple ::
  "(World \<Rightarrow> bool) \<Rightarrow> 'a M \<Rightarrow> ('a \<Rightarrow> World \<Rightarrow> bool) \<Rightarrow> (error \<Rightarrow> World \<Rightarrow> bool) \<Rightarrow> bool" where
  "triple P m Q E =
     (\<forall>w. P w \<longrightarrow>
        (case fst (m w) of Inl e \<Rightarrow> E e (snd (m w)) | Inr x \<Rightarrow> Q x (snd (m w))))"

definition returns :: "'a M \<Rightarrow> bool" where
  "returns m = (\<forall>w. \<exists>x. fst (m w) = Inr x)"

text \<open>
  The world after the user's stop request has been served, and the world after a
  suspension at \<open>p\<close>.
\<close>

definition stopped :: "Constants \<Rightarrow> Env \<Rightarrow> World \<Rightarrow> World" where
  "stopped C env w = snd (stopTransformByQ C env (jobId (transformByQState w)) w)"

definition served :: "Constants \<Rightarrow> Env \<Rightarrow> Suspension \<Rightarrow> World \<Rightarrow> World" where
  "served C env p w = (if cancelAt env p then stopped C env w else w)"

subsection \<open>Classes of events\<close>

definition isPoll :: "event \<Rightarrow> bool" where
  "isPoll e = (case e of Remote p _ \<Rightarrow> p = PollPlanReady \<or> p = PollComplete | _ \<Rightarrow> False)"

definition isStartJob :: "event \<Rightarrow> bool" where
  "isStartJob e = (case e of Remote p _ \<Rightarrow> p = StartJob | _ \<Rightarrow> False)"

definition isStopJob :: "event \<Rightarrow> bool" where
  "isStopJob e = (case e of Remote p _ \<Rightarrow> p = StopJob | _ \<Rightarrow> False)"

definition isResume :: "event \<Rightarrow> bool" where
  "isResume e = (case e of Remote p _ \<Rightarrow> p = ResumeRejected \<or> p = ResumeCompleted | _ \<Rightarrow> False)"

definition isCleanUpArtifacts :: "event \<Rightarrow> bool" where
  "isCleanUpArtifacts e = (case e of Remote p _ \<Rightarrow> p = CleanUpArtifacts | _ \<Rightarrow> False)"

definition isClearInterval :: "event \<Rightarrow> bool" where
  "isClearInterval e = (case e of ClearInterval _ \<Rightarrow> True | _ \<Rightarrow> False)"

definition isTotalRunTime :: "event \<Rightarrow> bool" where
  "isTotalRunTime e = (case e of TotalRunTime _ _ _ \<Rightarrow> True | _ \<Rightarrow> False)"

definition isReset :: "event \<Rightarrow> bool" where
  "isReset e = (e = ResetCodeTransformMetaDataField)"

definition isStopButtonFlag :: "event \<Rightarrow> bool" where
  "isStopButtonFlag e =
     (case e of SetContext k _ \<Rightarrow> k = ''gumby.isStopButtonAvailable'' | _ \<Rightarrow> False)"

text \<open>\<open>noNew P xs\<close>: the events of the trace that satisfy \<open>P\<close> are exactly \<open>xs\<close>.\<close>

definition noNew :: "(event \<Rightarrow> bool) \<Rightarrow> event list \<Rightarrow> World \<Rightarrow> bool" where
  "noNew P xs w = (filter P (trace w) = xs)"

text \<open>
  \<open>watch P S\<close>: the event class \<open>P\<close> contains at most calls of the collaborators in \<open>S\<close>
  and the events that only \<^verbatim>\<open>postTransformationJob\<close> and \<^verbatim>\<open>cleanupTransformationJob\<close> emit.
\<close>

definition watch :: "(event \<Rightarrow> bool) \<Rightarrow> Suspension set \<Rightarrow> bool" where
  "watch P S =
     (\<forall>e. P e \<longrightarrow>
        (case e of
           Remote p _ \<Rightarrow> p \<in> S
         | ClearInterval _ \<Rightarrow> True
         | TotalRunTime _ _ _ \<Rightarrow> True
         | ResetCodeTransformMetaDataField \<Rightarrow> True
         | _ \<Rightarrow> False))"

text \<open>
  \<open>calls ts ps ss\<close>: the reports of a total run time, the polls and the remote starts in
  the trace.
\<close>

definition calls :: "event list \<Rightarrow> event list \<Rightarrow> event list \<Rightarrow> World \<Rightarrow> bool" where
  "calls ts ps ss w =
     (filter isTotalRunTime (trace w) = ts \<and> filter isPoll (trace w) = ps \<and>
      filter isStartJob (trace w) = ss)"

subsection \<open>Assertions between the stages of a run\<close>

text \<open>The run is under way, no job id has been assigned, and \<open>xs\<close> are the stop calls so far.\<close>

definition beforeStart :: "event list \<Rightarrow> World \<Rightarrow> bool" where
  "beforeStart xs w =
     (status (transformByQState w) = RUNNING \<and> jobId (transformByQState w) = [] \<and>
      filter isStopJob (trace w) = xs)"


text \<open>
  The invariant of the refresh timer between \<^verbatim>\<open>startInterval\<close> and the cleanup: the timer
  \<open>i\<close> of the run is active and is the one \<^verbatim>\<open>transformByQState\<close> holds, and no cleanup has
  happened (\<open>ys\<close> and \<open>zs\<close> are the \<^verbatim>\<open>clearInterval\<close> calls and the resets of the telemetry
  metadata before the run).
\<close>

definition timerArmed :: "nat \<Rightarrow> nat list \<Rightarrow> event list \<Rightarrow> event list \<Rightarrow> World \<Rightarrow> bool" where
  "timerArmed i xs ys zs w =
     (intervalId (transformByQState w) = Some i \<and> activeIntervals w = i # xs \<and>
      filter isClearInterval (trace w) = ys \<and> filter isReset (trace w) = zs)"

text \<open>The statuses in which a run has ended.\<close>

definition isTerminal :: "TransformByQStatus \<Rightarrow> bool" where
  "isTerminal st = (st = SUCCEEDED \<or> st = PARTIALLY_SUCCEEDED \<or> st = FAILED \<or> st = CANCELLED)"

subsection \<open>What the collaborators of the dependency prompt do\<close>

text \<open>
  Read off the environment: some step of the \<^verbatim>\<open>try\<close> block of
  \<^verbatim>\<open>initiateHumanInTheLoopPrompt\<close> raises an error (the last disjunct is the sentinel for
  "no versions available"); every step of \<^verbatim>\<open>finishHumanInTheLoop\<close> before its resume call
  succeeds.
\<close>

definition hilErrorRaised :: "Constants \<Rightarrow> Env \<Rightarrow> bool" where
  "hilErrorRaised C env =
     (throws env GetTransformationSteps \<noteq> None \<or>
      \<not> downloadArtifactStepFound env \<or>
      falsy (artifactId env) \<or> falsy (artifactType env) \<or>
      throws env DownloadHilResultArchive \<noteq> None \<or>
      throws env GetJsonValuesFromManifestFile \<noteq> None \<or>
      throws env CreatePomFileCopy \<noteq> None \<or>
      throws env ReplacePomFileVersion \<noteq> None \<or>
      throws env GetCodeIssueSnippetFromPom \<noteq> None \<or>
      throws env RunMavenDependencyUpdateCommands \<noteq> None \<or>
      throws env GetDependencyListXmlOutput \<noteq> None \<or>
      throws env ParseVersionsListFromPomFile \<noteq> None \<or>
      versionsStatus env = dependencyNoAvailableVersions C)"

definition stepsBeforeResumeSucceed :: "Env \<Rightarrow> string option \<Rightarrow> bool" where
  "stepsBeforeResumeSucceed env selectedDependency =
     (\<not> falsy selectedDependency \<and>
      throws env CreatePomFileCopy = None \<and>
      throws env ReplacePomFileVersion = None \<and>
      throws env PrepareProjectDependencies = None \<and>
      throws env HilZipCode = None \<and>
      throws env HilUploadPayload = None)"

text \<open>
  Rounds of the completion loop. In a rejecting round the poll returns \<^verbatim>\<open>PAUSED\<close>, a step
  of the dependency prompt raises an error, and the two recovery calls (the \<^verbatim>\<open>REJECTED\<close>
  resume and the removal of the artifacts) succeed. In a terminal round the poll fails or
  returns a status other than \<^verbatim>\<open>PAUSED\<close>, and the remote stop call (which the error handler
  may issue) succeeds.
\<close>

definition rejectingRound :: "Constants \<Rightarrow> Env \<Rightarrow> bool" where
  "rejectingRound C env =
     (throws env PollComplete = None \<and> completePollStatus env = ''PAUSED'' \<and>
      hilErrorRaised C env \<and>
      throws env ResumeRejected = None \<and> throws env CleanUpArtifacts = None)"

definition terminalRound :: "Env \<Rightarrow> bool" where
  "terminalRound env =
     (throws env StopJob = None \<and>
      (throws env PollComplete \<noteq> None \<or> completePollStatus env \<noteq> ''PAUSED''))"

section \<open>Example data\<close>

text \<open>
  \<^verbatim>\<open>toLowerCase\<close> on strings of code units below 256 (Basic Latin and Latin-1 Supplement):
  the capitals are A to Z and U+00C0 to U+00DE without the multiplication sign U+00D7, and
  each has its small letter 32 places further on.
\<close>

definition lowerChar :: "char \<Rightarrow> char" where
  "lowerChar c =
     (let n = (of_char c :: nat)
      in if (65 \<le> n \<and> n \<le> 90) \<or> (192 \<le> n \<and> n \<le> 222 \<and> n \<noteq> 215)
         then char_of (n + 32) else c)"

definition toLowerCaseLatin1 :: "string \<Rightarrow> string" where
  "toLowerCaseLatin1 s = map lowerChar s"

definition exampleConstants :: Constants where
  "exampleConstants =
     \<lparr>jobStartedNotification = ''started'',
      failedToUploadProjectNotification = ''upload failed:'',
      failedToUploadProjectChatMessage = ''chat: upload failed:'',
      failedToStartJobNotification = ''start failed:'',
      failedToStartJobChatMessage = ''chat: start failed:'',
      tooManyJobsNotification = ''too many jobs'',
      tooManyJobsChatMessage = ''chat: too many jobs'',
      linesOfCodeLimitBreachedNotification = ''too many lines'',
      linesOfCodeLimitBreachedChatMessage = ''chat: too many lines'',
      failedToCompleteJobNotification = ''job did not complete'',
      failedToCompleteJobChatMessage = ''chat: job did not complete'',
      jobCompletedChatMessage = ''chat: completed'',
      jobPartiallyCompletedChatMessage = ''chat: partially completed'',
      jobCompletedNotification = ''completed'',
      jobPartiallyCompletedNotification = ''partially completed'',
      upgradeLibrariesMessage = '' upgrade libraries'',
      jobCancelledNotification = ''cancelled'',
      errorStoppingJobNotification = ''error stopping'',
      dependencyNoAvailableVersions = ''NoAvailableVersions'',
      toLowerCase = toLowerCaseLatin1\<rparr>"

text \<open>Every collaborator succeeds, nobody presses stop, the job completes without a pause.\<close>

definition happyEnv :: Env where
  "happyEnv =
     \<lparr>throws = (\<lambda>_. None), cancelAt = (\<lambda>_. False),
      zipTempFilePath = ''/tmp/payload.zip'', uploadIdReturned = ''U1'',
      jobIdReturned = ''J1'', planPollStatus = ''PLANNED'',
      tempToolkitFolder = ''/tmp/toolkit'', buildLogExists = False,
      buildLogsTxtExists = False, completePollStatus = ''COMPLETED'',
      downloadArtifactStepFound = True, artifactId = Some ''A1'',
      artifactType = Some ''hil'', versionsStatus = ''OK''\<rparr>"

text \<open>Exactly the given call fails; the user presses stop at the given suspension point.\<close>

definition failsAtEnv :: "Suspension \<Rightarrow> Env" where
  "failsAtEnv q = happyEnv\<lparr>throws := (\<lambda>p. if p = q then Some ''timeout'' else None)\<rparr>"

definition stopAtEnv :: "Suspension \<Rightarrow> Env" where
  "stopAtEnv q = happyEnv\<lparr>cancelAt := (\<lambda>p. p = q)\<rparr>"

text \<open>
  The job completes, and the upload ZIP cannot be removed at the end (it is locked, or the
  permission is missing).
\<close>

definition removalFailsEnv :: Env where
  "removalFailsEnv =
     happyEnv\<lparr>throws := (\<lambda>p. if p = RemovePayloadFile
                             then Some ''EPERM: operation not permitted'' else None)\<rparr>"

text \<open>The remote start fails with the given message.\<close>

definition startFailsEnv :: "string \<Rightarrow> Env" where
  "startFailsEnv m = happyEnv\<lparr>throws := (\<lambda>p. if p = StartJob then Some m else None)\<rparr>"

text \<open>
  The job pauses and the dependency tool reports that no other version is available; in
  the second environment the \<^verbatim>\<open>REJECTED\<close> resume call fails as well.
\<close>

definition noVersionsEnv :: Env where
  "noVersionsEnv =
     happyEnv\<lparr>completePollStatus := ''PAUSED'', versionsStatus := ''NoAvailableVersions''\<rparr>"

definition noVersionsResumeFailsEnv :: Env where
  "noVersionsResumeFailsEnv =
     noVersionsEnv\<lparr>throws := (\<lambda>p. if p = ResumeRejected then Some ''timeout'' else None)\<rparr>"

text \<open>
  Worlds: nothing has run yet; a job J1 is running; job J1 has been cancelled; job J1 is
  running and its notification is set while its chat message is the empty string; an SQL
  conversion is about to start; a detached retry loop for job J1 is pending.
\<close>

definition idleWorld :: World where
  "idleWorld =
     \<lparr>transformByQState = idleDefaults, jobPlanProgress = (\<lambda>_. Pending),
      activeIntervals = [], detachedRetries = [], trace = []\<rparr>"

definition runningWorld :: World where
  "runningWorld = idleWorld\<lparr>transformByQState := idleDefaults\<lparr>status := RUNNING, jobId := ''J1''\<rparr>\<rparr>"

definition cancelledWorld :: World where
  "cancelledWorld = idleWorld\<lparr>transformByQState := idleDefaults\<lparr>status := CANCELLED, jobId := ''J1''\<rparr>\<rparr>"

definition quotaWorld :: World where
  "quotaWorld =
     idleWorld\<lparr>transformByQState := idleDefaults
       \<lparr>status := RUNNING, jobId := ''J1'',
        jobFailureErrorNotification := Some ''too many jobs'',
        jobFailureErrorChatMessage := Some []\<rparr>\<rparr>"


definition pendingWorld :: World where
  "pendingWorld = idleWorld\<lparr>detachedRetries := [''J1'']\<rparr>"



section \<open>Rules for blocks and runs\<close>

lemmas monad_defs = ret_def throw_def bind_def seq_def try_catch_def try_finally_def attempt_def
  cond_def whenever_def modify_def inspect_def reading_def

lemmas setter_defs = emit_def onState_def setStatus_def setJobId_def setPolledJobStatus_def
  setPayloadFilePath_def setPreBuildLogFilePath_def setJobFailureErrorNotification_def
  setJobFailureErrorChatMessage_def setHasSeenTransforming_def setIntervalId_def
  setJobDefaults_def setProgress_def detach_def

lemmas example_defs = exampleConstants_def happyEnv_def idleWorld_def idleDefaults_def
  runningWorld_def cancelledWorld_def

subsection \<open>Composition rules for invariants\<close>

lemma preserves_ret: "preserves I (ret x)"
  by (simp add: preserves_def ret_def)

lemma preserves_throw: "preserves I (throw e)"
  by (simp add: preserves_def throw_def)

lemma preserves_bind:
  "preserves I m \<Longrightarrow> (\<And>x. preserves I (f x)) \<Longrightarrow> preserves I (bind m f)"
  unfolding preserves_def bind_def
  by (auto split: prod.splits sum.splits)

lemma preserves_seq: "preserves I m \<Longrightarrow> preserves I n \<Longrightarrow> preserves I (seq m n)"
  unfolding seq_def by (rule preserves_bind)

lemma preserves_try_catch:
  "preserves I m \<Longrightarrow> (\<And>e. preserves I (h e)) \<Longrightarrow> preserves I (try_catch m h)"
  unfolding preserves_def try_catch_def
  by (auto split: prod.splits sum.splits)

lemma preserves_try_finally:
  "preserves I m \<Longrightarrow> preserves I f \<Longrightarrow> preserves I (try_finally m f)"
  unfolding preserves_def try_finally_def
  by (auto split: prod.splits sum.splits)

lemma preserves_attempt: "preserves I m \<Longrightarrow> preserves I (attempt m)"
  unfolding preserves_def attempt_def by (auto split: prod.splits)

lemma preserves_block_Nil: "preserves I (block [])"
  by (simp add: preserves_ret)

lemma preserves_block_Cons:
  "preserves I m \<Longrightarrow> preserves I (block ms) \<Longrightarrow> preserves I (block (m # ms))"
  by (simp add: preserves_seq)

lemma preserves_cond: "preserves I m \<Longrightarrow> preserves I n \<Longrightarrow> preserves I (cond b m n)"
  unfolding preserves_def cond_def by auto

lemma preserves_whenever: "preserves I m \<Longrightarrow> preserves I (whenever b m)"
  unfolding whenever_def by (simp add: preserves_cond preserves_ret)

lemma preserves_inspect: "(\<And>x. preserves I (k x)) \<Longrightarrow> preserves I (inspect f k)"
  unfolding preserves_def inspect_def by auto

lemma preserves_reading: "(\<And>x. preserves I (k x)) \<Longrightarrow> preserves I (reading f k)"
  unfolding reading_def by (rule preserves_inspect)

lemma preserves_if: "preserves I m \<Longrightarrow> preserves I n \<Longrightarrow> preserves I (if b then m else n)"
  by simp

lemma preserves_Let: "(\<And>x. preserves I (f x)) \<Longrightarrow> preserves I (Let v f)"
  by (simp add: Let_def)

lemma preserves_case_option:
  "preserves I m \<Longrightarrow> (\<And>x. preserves I (f x)) \<Longrightarrow>
   preserves I (case v of None \<Rightarrow> m | Some x \<Rightarrow> f x)"
  by (cases v) auto

lemma preserves_case_sum:
  "(\<And>x. preserves I (f x)) \<Longrightarrow> (\<And>x. preserves I (g x)) \<Longrightarrow>
   preserves I (case v of Inl x \<Rightarrow> f x | Inr x \<Rightarrow> g x)"
  by (cases v) auto

lemma preserves_modify: "(\<And>w. I w \<Longrightarrow> I (f w)) \<Longrightarrow> preserves I (modify f)"
  unfolding preserves_def modify_def by auto

lemmas preserves_intros = preserves_ret preserves_throw preserves_bind preserves_seq
  preserves_try_catch preserves_try_finally preserves_attempt preserves_block_Nil
  preserves_block_Cons preserves_cond preserves_whenever preserves_inspect preserves_reading
  preserves_if preserves_Let preserves_case_option preserves_case_sum preserves_modify

lemma preservesD: "preserves I m \<Longrightarrow> I w \<Longrightarrow> I (snd (m w))"
  by (simp add: preserves_def)

lemma snd_then_ret [simp]:
  "snd (case r of (Inl e, w') \<Rightarrow> (Inl e, w') | (Inr x, w') \<Rightarrow> (Inr y, w')) = snd r"
  by (cases r; cases "fst r") auto

subsection \<open>Outcome and final world of composed blocks\<close>

lemma fst_seq:
  "fst (seq m n w) = (case fst (m w) of Inl e \<Rightarrow> Inl e | Inr x \<Rightarrow> fst (n (snd (m w))))"
  by (simp add: seq_def bind_def split: prod.splits sum.splits)

lemma snd_seq:
  "snd (seq m n w) = (case fst (m w) of Inl e \<Rightarrow> snd (m w) | Inr x \<Rightarrow> snd (n (snd (m w))))"
  by (simp add: seq_def bind_def split: prod.splits sum.splits)

lemma fst_bind:
  "fst (bind m f w) = (case fst (m w) of Inl e \<Rightarrow> Inl e | Inr x \<Rightarrow> fst (f x (snd (m w))))"
  by (simp add: bind_def split: prod.splits sum.splits)

lemma snd_bind:
  "snd (bind m f w) = (case fst (m w) of Inl e \<Rightarrow> snd (m w) | Inr x \<Rightarrow> snd (f x (snd (m w))))"
  by (simp add: bind_def split: prod.splits sum.splits)

lemma fst_try_catch:
  "fst (try_catch m h w) =
     (case fst (m w) of Inl e \<Rightarrow> fst (h e (snd (m w))) | Inr x \<Rightarrow> Inr x)"
  by (simp add: try_catch_def split: prod.splits sum.splits)

lemma snd_try_catch:
  "snd (try_catch m h w) =
     (case fst (m w) of Inl e \<Rightarrow> snd (h e (snd (m w))) | Inr x \<Rightarrow> snd (m w))"
  by (simp add: try_catch_def split: prod.splits sum.splits)

lemma fst_try_finally:
  "fst (try_finally m f w) =
     (case fst (f (snd (m w))) of Inl e \<Rightarrow> Inl e | Inr x \<Rightarrow> fst (m w))"
  by (simp add: try_finally_def split: prod.splits sum.splits)

lemma snd_try_finally: "snd (try_finally m f w) = snd (f (snd (m w)))"
  by (simp add: try_finally_def split: prod.splits sum.splits)

lemmas outcome_simps = fst_seq snd_seq fst_bind snd_bind fst_try_catch snd_try_catch
  fst_try_finally snd_try_finally

subsection \<open>Suspension points\<close>

lemma stopped_eq:
  "stopped C env w =
     (if status (transformByQState w) = RUNNING
      then w\<lparr>transformByQState :=
               (transformByQState w)\<lparr>status := CANCELLED, polledJobStatus := ''CANCELLED''\<rparr>,
             trace := trace w @
               [SetContext ''gumby.isStopButtonAvailable'' False,
                Remote StopJob (jobId (transformByQState w)),
                ShowErrorMessage
                  (if throws env StopJob = None then jobCancelledNotification C
                   else errorStoppingJobNotification C)]\<rparr>
      else w)"
  by (simp add: stopped_def stopTransformByQ_def stopJob_def invoke_def isRunning_def
        monad_defs setter_defs split: option.splits)

lemma stopTransformByQ_returns: "fst (stopTransformByQ C env j w) = Inr ()"
  by (simp add: stopTransformByQ_def stopJob_def invoke_def monad_defs setter_defs
        split: option.splits)

lemma suspended_eq: "suspended C env p w = (Inr (), served C env p w)"
  using stopTransformByQ_returns[of C env "jobId (transformByQState w)" w]
  by (cases "stopTransformByQ C env (jobId (transformByQState w)) w")
     (simp add: suspended_def served_def stopped_def monad_defs)

lemma sleep_eq: "sleep C env p w = (Inr (), served C env p w)"
  by (simp add: sleep_def suspended_eq)

lemma await_eq:
  "await C env p a w =
     (case throws env p of None \<Rightarrow> Inr () | Some m \<Rightarrow> Inl (Error m),
      served C env p (w\<lparr>trace := trace w @ [Remote p a]\<rparr>))"
  by (simp add: await_def suspended_eq monad_defs setter_defs split: option.splits)

lemma invoke_eq:
  "invoke env p a w =
     (case throws env p of None \<Rightarrow> Inr () | Some m \<Rightarrow> Inl (Error m),
      w\<lparr>trace := trace w @ [Remote p a]\<rparr>)"
  by (simp add: invoke_def monad_defs setter_defs split: option.splits)

lemma served_fields [simp]:
  "jobId (transformByQState (served C env p w)) = jobId (transformByQState w)"
  "jobFailureErrorNotification (transformByQState (served C env p w)) =
     jobFailureErrorNotification (transformByQState w)"
  "jobFailureErrorChatMessage (transformByQState (served C env p w)) =
     jobFailureErrorChatMessage (transformByQState w)"
  "transformationType (transformByQState (served C env p w)) =
     transformationType (transformByQState w)"
  "intervalId (transformByQState (served C env p w)) = intervalId (transformByQState w)"
  "payloadFilePath (transformByQState (served C env p w)) = payloadFilePath (transformByQState w)"
  "jobPlanProgress (served C env p w) = jobPlanProgress w"
  "activeIntervals (served C env p w) = activeIntervals w"
  "detachedRetries (served C env p w) = detachedRetries w"
  by (simp_all add: served_def stopped_eq)

lemma served_status:
  "status (transformByQState (served C env p w)) =
     (if cancelAt env p \<and> status (transformByQState w) = RUNNING then CANCELLED
      else status (transformByQState w))"
  by (simp add: served_def stopped_eq)

lemma served_filter:
  "filter isPoll (trace (served C env p w)) = filter isPoll (trace w)"
  "filter isStartJob (trace (served C env p w)) = filter isStartJob (trace w)"
  "filter isResume (trace (served C env p w)) = filter isResume (trace w)"
  "filter isClearInterval (trace (served C env p w)) = filter isClearInterval (trace w)"
  "filter isTotalRunTime (trace (served C env p w)) = filter isTotalRunTime (trace w)"
  "filter isCleanUpArtifacts (trace (served C env p w)) = filter isCleanUpArtifacts (trace w)"
  "filter isReset (trace (served C env p w)) = filter isReset (trace w)"
  by (simp_all add: served_def stopped_eq isPoll_def isStartJob_def isResume_def
        isClearInterval_def isTotalRunTime_def isCleanUpArtifacts_def isReset_def)

subsection \<open>Events that a block does not emit\<close>

lemma watch_Remote: "watch P S \<Longrightarrow> p \<notin> S \<Longrightarrow> \<not> P (Remote p a)"
  by (auto simp: watch_def)

lemma watch_other:
  assumes "watch P S"
  shows "\<not> P (Command c)" "\<not> P (SetContext k b)" "\<not> P (ShowInformationMessage t)"
    "\<not> P (ShowErrorMessage t)" "\<not> P (SetInterval i)" "\<not> P UpdateJobHistory"
    "\<not> P (ErrorThrown e)" "\<not> P HumanInTheLoopStartIntervention"
    "\<not> P HumanInTheLoopPromptUserForDependency" "\<not> P HumanInTheLoopSelectionUploaded"
    "\<not> P (HumanInTheLoopTelemetry j r)" "\<not> P (TransformationFinished cm)"
    "\<not> P (RemoveFile f)"
  using assms by (auto simp: watch_def)

lemma noNew_emit: "\<not> P e \<Longrightarrow> preserves (noNew P xs) (emit e)"
  unfolding emit_def by (rule preserves_modify) (simp add: noNew_def)

lemma noNew_onState: "preserves (noNew P xs) (onState f)"
  unfolding onState_def by (rule preserves_modify) (simp add: noNew_def)

lemma noNew_setters:
  "preserves (noNew P xs) (setStatus st)"
  "preserves (noNew P xs) (setJobId j)"
  "preserves (noNew P xs) (setPolledJobStatus ps)"
  "preserves (noNew P xs) (setPayloadFilePath pf)"
  "preserves (noNew P xs) (setPreBuildLogFilePath pf)"
  "preserves (noNew P xs) (setJobFailureErrorNotification n)"
  "preserves (noNew P xs) (setJobFailureErrorChatMessage n)"
  "preserves (noNew P xs) (setHasSeenTransforming b)"
  "preserves (noNew P xs) (setIntervalId i)"
  "preserves (noNew P xs) setJobDefaults"
  "preserves (noNew P xs) (setProgress k v)"
  "preserves (noNew P xs) (detach j)"
  unfolding setStatus_def setJobId_def setPolledJobStatus_def setPayloadFilePath_def
    setPreBuildLogFilePath_def setJobFailureErrorNotification_def
    setJobFailureErrorChatMessage_def setHasSeenTransforming_def setIntervalId_def
    setJobDefaults_def setProgress_def detach_def
  by (simp_all add: noNew_onState) (rule preserves_modify, simp add: noNew_def)+

lemma noNew_throwIfCancelled: "preserves (noNew P xs) throwIfCancelled"
  unfolding throwIfCancelled_def by (intro preserves_intros)

lemma noNew_invoke: "\<not> P (Remote p a) \<Longrightarrow> preserves (noNew P xs) (invoke env p a)"
  unfolding invoke_def by (intro preserves_intros noNew_emit)

lemma noNew_stopTransformByQ:
  assumes "watch P S" and "StopJob \<notin> S"
  shows "preserves (noNew P xs) (stopTransformByQ C env j)"
  unfolding stopTransformByQ_def stopJob_def
  by (intro preserves_intros noNew_emit noNew_setters noNew_invoke
        watch_other[OF assms(1)] watch_Remote[OF assms])

lemma noNew_suspended:
  assumes "watch P S" and "StopJob \<notin> S"
  shows "preserves (noNew P xs) (suspended C env p)"
  unfolding suspended_def
  by (intro preserves_intros noNew_stopTransformByQ[OF assms])

lemma noNew_sleep:
  assumes "watch P S" and "StopJob \<notin> S"
  shows "preserves (noNew P xs) (sleep C env p)"
  unfolding sleep_def by (rule noNew_suspended[OF assms])

lemma noNew_await:
  assumes "watch P S" and "StopJob \<notin> S" and "p \<notin> S"
  shows "preserves (noNew P xs) (await C env p a)"
  unfolding await_def
  by (intro preserves_intros noNew_emit noNew_suspended[OF assms(1,2)]
        watch_Remote[OF assms(1,3)])

lemmas noNew_intros = preserves_intros noNew_emit noNew_setters noNew_throwIfCancelled

lemma noNew_setTransformationToRunningState:
  assumes "watch P S"
  shows "preserves (noNew P xs) setTransformationToRunningState"
  unfolding setTransformationToRunningState_def setContextVariables_def
  by (intro noNew_intros watch_other[OF assms])

lemma noNew_startInterval:
  assumes "watch P S"
  shows "preserves (noNew P xs) startInterval"
  unfolding startInterval_def
  by (intro noNew_intros watch_other[OF assms]) (simp add: noNew_def)

lemma noNew_preTransformationUploadCode:
  assumes "watch P S" and "StopJob \<notin> S" and "ZipCode \<notin> S" and "UploadPayload \<notin> S"
  shows "preserves (noNew P xs) (preTransformationUploadCode C env)"
  unfolding preTransformationUploadCode_def zipCode_def uploadPayload_def
  by (intro noNew_intros watch_other[OF assms(1)] noNew_await[OF assms(1,2)]
        noNew_sleep[OF assms(1,2)] assms)

lemma noNew_startTransformationJob:
  assumes "watch P S" and "StopJob \<notin> S" and "StartJob \<notin> S"
  shows "preserves (noNew P xs) (startTransformationJob C env uploadId)"
  unfolding startTransformationJob_def startJob_def
  by (intro noNew_intros watch_other[OF assms(1)] noNew_await[OF assms(1,2)]
        noNew_sleep[OF assms(1,2)] assms)

lemma noNew_transformationJobErrorHandler:
  assumes "watch P S" and "StopJob \<notin> S"
  shows "preserves (noNew P xs) (transformationJobErrorHandler C env err)"
  unfolding transformationJobErrorHandler_def stopJob_def
  by (intro noNew_intros watch_other[OF assms(1)] noNew_invoke watch_Remote[OF assms])

lemma noNew_fallible: "\<not> P ev \<Longrightarrow> preserves (noNew P xs) (fallible env p ev)"
  unfolding fallible_def by (intro preserves_intros noNew_emit)

lemma noNew_postTransformationJob:
  assumes "watch P S" and "\<And>a b c. \<not> P (TotalRunTime a b c)"
  shows "preserves (noNew P xs) (postTransformationJob C env)"
  unfolding postTransformationJob_def postTransformationJob_report_def
  by (intro noNew_intros noNew_fallible watch_other[OF assms(1)] assms(2))

lemma noNew_cleanupTransformationJob:
  assumes "watch P S" and "\<And>i. \<not> P (ClearInterval i)" and "\<not> P ResetCodeTransformMetaDataField"
  shows "preserves (noNew P xs) cleanupTransformationJob"
  unfolding cleanupTransformationJob_def clearInterval_def
  by (intro noNew_intros watch_other[OF assms(1)] assms(2,3)) (simp add: noNew_def)

lemma preserves_bind_fails:
  assumes "preserves I m" and "\<And>w. \<exists>e. fst (m w) = Inl e"
  shows "preserves I (bind m f)"
  unfolding preserves_def
proof (intro allI impI)
  fix w assume "I w"
  obtain e where "fst (m w) = Inl e" using assms(2) by blast
  then have "snd (bind m f w) = snd (m w)" by (simp add: snd_bind)
  then show "I (snd (bind m f w))" using assms(1) \<open>I w\<close> by (simp add: preserves_def)
qed

lemma watch_isPoll: "watch isPoll {PollPlanReady, PollComplete}"
  by (auto simp: watch_def isPoll_def split: event.splits)

subsection \<open>Blocks that never throw\<close>

lemma returns_ret: "returns (ret x)"
  by (simp add: returns_def ret_def)

lemma returns_modify: "returns (modify f)"
  by (simp add: returns_def modify_def)

lemma returns_bind: "returns m \<Longrightarrow> (\<And>x. returns (f x)) \<Longrightarrow> returns (bind m f)"
  unfolding returns_def
proof (intro allI)
  fix w assume m: "\<forall>w. \<exists>x. fst (m w) = Inr x" and f: "\<And>x. \<forall>w. \<exists>y. fst (f x w) = Inr y"
  from m obtain x where x: "fst (m w) = Inr x" by blast
  from f obtain y where "fst (f x (snd (m w))) = Inr y" by blast
  with x show "\<exists>y. fst (bind m f w) = Inr y" by (simp add: fst_bind)
qed

lemma returns_seq: "returns m \<Longrightarrow> returns n \<Longrightarrow> returns (seq m n)"
  unfolding seq_def by (rule returns_bind)

lemma returns_block_Nil: "returns (block [])"
  by (simp add: returns_ret)

lemma returns_block_Cons: "returns m \<Longrightarrow> returns (block ms) \<Longrightarrow> returns (block (m # ms))"
  by (simp add: returns_seq)

lemma returns_cond: "returns m \<Longrightarrow> returns n \<Longrightarrow> returns (cond b m n)"
  by (simp add: returns_def cond_def)

lemma returns_whenever: "returns m \<Longrightarrow> returns (whenever b m)"
  unfolding whenever_def by (simp add: returns_cond returns_ret)

lemma returns_inspect: "(\<And>x. returns (k x)) \<Longrightarrow> returns (inspect f k)"
  by (simp add: returns_def inspect_def)

lemma returns_reading: "(\<And>x. returns (k x)) \<Longrightarrow> returns (reading f k)"
  unfolding reading_def by (rule returns_inspect)

lemma returns_if: "returns m \<Longrightarrow> returns n \<Longrightarrow> returns (if b then m else n)"
  by simp

lemma returns_Let: "(\<And>x. returns (f x)) \<Longrightarrow> returns (Let v f)"
  by (simp add: Let_def)

lemma returns_case_option:
  "returns m \<Longrightarrow> (\<And>x. returns (f x)) \<Longrightarrow> returns (case v of None \<Rightarrow> m | Some x \<Rightarrow> f x)"
  by (cases v) auto

lemmas returns_intros = returns_ret returns_modify returns_bind returns_seq returns_block_Nil
  returns_block_Cons returns_cond returns_whenever returns_inspect returns_reading returns_if
  returns_Let returns_case_option

lemma returnsD: "returns m \<Longrightarrow> fst (m w) = Inr ()"
  for m :: "unit M"
  by (auto simp: returns_def)

lemma returns_setTransformationToRunningState: "returns setTransformationToRunningState"
  unfolding setTransformationToRunningState_def setContextVariables_def setter_defs
  by (intro returns_intros)

lemma returns_startInterval: "returns startInterval"
  unfolding startInterval_def setter_defs by (intro returns_intros)

text \<open>
  \<^verbatim>\<open>postTransformationJob\<close> returns when the removal of the two temporary files and the
  review command do.
\<close>

lemma returns_postTransformationJob:
  assumes "throws env RemovePayloadFile = None" and "throws env RemoveBuildLogs = None"
    and "throws env StartReview = None"
  shows "returns (postTransformationJob C env)"
proof -
  have f: "returns (fallible env p ev)" if "throws env p = None" for p ev
    using that by (simp add: fallible_def emit_def returns_seq returns_modify returns_ret)
  show ?thesis
    unfolding postTransformationJob_def postTransformationJob_report_def setter_defs
    by (intro returns_intros f assms)
qed

lemma returns_cleanupTransformationJob: "returns cleanupTransformationJob"
  unfolding cleanupTransformationJob_def clearInterval_def setter_defs
  by (intro returns_intros)

subsection \<open>Triples\<close>

lemma tripleD:
  "triple P m Q E \<Longrightarrow> P w \<Longrightarrow>
   (case fst (m w) of Inl e \<Rightarrow> E e (snd (m w)) | Inr x \<Rightarrow> Q x (snd (m w)))"
  by (simp add: triple_def)

lemma triple_preserves: "preserves I m \<Longrightarrow> triple I m (\<lambda>_. I) (\<lambda>_. I)"
  by (auto simp: triple_def preserves_def split: sum.splits)

lemma triple_conj:
  "triple P1 m Q1 E1 \<Longrightarrow> triple P2 m Q2 E2 \<Longrightarrow>
   triple (\<lambda>w. P1 w \<and> P2 w) m (\<lambda>x w. Q1 x w \<and> Q2 x w) (\<lambda>e w. E1 e w \<and> E2 e w)"
  by (auto simp: triple_def split: sum.splits)

lemma triple_weaken:
  "triple P' m Q' E' \<Longrightarrow> (\<And>w. P w \<Longrightarrow> P' w) \<Longrightarrow> (\<And>x w. Q' x w \<Longrightarrow> Q x w) \<Longrightarrow>
   (\<And>e w. E' e w \<Longrightarrow> E e w) \<Longrightarrow> triple P m Q E"
  by (auto simp: triple_def split: sum.splits)

lemma triple_False: "triple (\<lambda>_. False) m Q E"
  by (simp add: triple_def)

text \<open>
  The rule for a whole run: one assertion between every two stages, one for the error
  handler, and one for the finalizer, which is \<^verbatim>\<open>postTransformationJob\<close> followed by the
  cleanup (when \<^verbatim>\<open>postTransformationJob\<close> throws, the cleanup is not reached).
\<close>

lemma run_rule_finalizer:
  assumes sr: "\<And>w. P0 w \<Longrightarrow> P1 (snd (setTransformationToRunningState w))"
    and si: "\<And>w. P1 w \<Longrightarrow> P2 (snd (startInterval w))"
    and up: "triple P2 (preTransformationUploadCode C env) P3 E"
    and st: "\<And>u. triple (P3 u) (startTransformationJob C env u) P4 E"
    and pp: "\<And>j. triple (P4 j) (pollTransformationStatusUntilPlanReady C env j) (\<lambda>_. P5 j) E"
    and hl: "\<And>j. triple (P5 j) (humanInTheLoopRetryLogic C env j) (\<lambda>_. Q) E"
    and h: "\<And>e w. E e w \<Longrightarrow> Q (snd (transformationJobErrorHandler C env e w))"
    and fin: "\<And>w. Q w \<Longrightarrow>
                S (snd (block [postTransformationJob C env, cleanupTransformationJob] w))"
    and start: "P0 w"
  shows "S (snd (startTransformByQ C env w))"
proof -
  define w1 where "w1 = snd (setTransformationToRunningState w)"
  define w2 where "w2 = snd (startInterval w1)"
  define stages where "stages =
    bind (preTransformationUploadCode C env) (\<lambda>uploadId.
      bind (startTransformationJob C env uploadId) (\<lambda>jobID.
        seq (pollTransformationStatusUntilPlanReady C env jobID)
            (humanInTheLoopRetryLogic C env jobID)))"
  define body where "body = try_catch (seq startInterval stages)
    (\<lambda>error. transformationJobErrorHandler C env error)"
  have p2: "P2 w2"
    unfolding w2_def w1_def using sr si start by blast
  have stages: "case fst (stages w2) of Inl e \<Rightarrow> E e (snd (stages w2)) | Inr x \<Rightarrow> Q (snd (stages w2))"
  proof (cases "fst (preTransformationUploadCode C env w2)")
    case (Inl e)
    then show ?thesis
      using tripleD[OF up p2] by (simp add: stages_def fst_bind snd_bind)
  next
    case (Inr u)
    define w3 where "w3 = snd (preTransformationUploadCode C env w2)"
    have p3: "P3 u w3" using tripleD[OF up p2] Inr by (simp add: w3_def)
    show ?thesis
    proof (cases "fst (startTransformationJob C env u w3)")
      case (Inl e)
      then show ?thesis
        using tripleD[OF st p3] Inr by (simp add: stages_def fst_bind snd_bind w3_def)
    next
      case j: (Inr j)
      define w4 where "w4 = snd (startTransformationJob C env u w3)"
      have p4: "P4 j w4" using tripleD[OF st p3] j by (simp add: w4_def)
      show ?thesis
      proof (cases "fst (pollTransformationStatusUntilPlanReady C env j w4)")
        case (Inl e)
        then show ?thesis
          using tripleD[OF pp p4] Inr j
          by (simp add: stages_def fst_bind snd_bind fst_seq snd_seq w3_def w4_def)
      next
        case r: (Inr r)
        define w5 where "w5 = snd (pollTransformationStatusUntilPlanReady C env j w4)"
        have p5: "P5 j w5" using tripleD[OF pp p4] r by (simp add: w5_def)
        show ?thesis
          using tripleD[OF hl p5] Inr j r
          by (simp add: stages_def fst_bind snd_bind fst_seq snd_seq w3_def w4_def w5_def
                split: sum.splits)
      qed
    qed
  qed
  have si_ret: "fst (startInterval w1) = Inr ()"
    by (rule returnsD[OF returns_startInterval])
  have q: "Q (snd (body w1))"
    using stages h
    by (simp add: body_def snd_try_catch fst_seq snd_seq si_ret w2_def[symmetric]
          split: sum.splits)
  have "snd (startTransformByQ C env w) =
        snd (block [postTransformationJob C env, cleanupTransformationJob] (snd (body w1)))"
    unfolding startTransformByQ_def body_def stages_def w1_def
    by (simp add: snd_seq snd_try_finally
          returnsD[OF returns_setTransformationToRunningState] del: block.simps)
  then show ?thesis using q fin by simp
qed

lemma finalizer_end:
  "snd (block [postTransformationJob C env, cleanupTransformationJob] w) =
     (case fst (postTransformationJob C env w) of
        Inl e \<Rightarrow> snd (postTransformationJob C env w)
      | Inr x \<Rightarrow> snd (cleanupTransformationJob (snd (postTransformationJob C env w))))"
  by (simp add: snd_seq fst_seq ret_def returnsD[OF returns_cleanupTransformationJob]
        split: sum.splits)

text \<open>
  Two instances. In \<open>run_rule\<close> the last assertion holds after \<^verbatim>\<open>postTransformationJob\<close>
  and is kept by the cleanup, so it holds at the end of the run whether the cleanup is
  reached or not. In \<open>run_rule_cleaned\<close>, \<^verbatim>\<open>postTransformationJob\<close> returns, and the last
  assertion is one about the world after the cleanup.
\<close>

lemma run_rule:
  assumes sr: "\<And>w. P0 w \<Longrightarrow> P1 (snd (setTransformationToRunningState w))"
    and si: "\<And>w. P1 w \<Longrightarrow> P2 (snd (startInterval w))"
    and up: "triple P2 (preTransformationUploadCode C env) P3 E"
    and st: "\<And>u. triple (P3 u) (startTransformationJob C env u) P4 E"
    and pp: "\<And>j. triple (P4 j) (pollTransformationStatusUntilPlanReady C env j) (\<lambda>_. P5 j) E"
    and hl: "\<And>j. triple (P5 j) (humanInTheLoopRetryLogic C env j) (\<lambda>_. Q) E"
    and h: "\<And>e w. E e w \<Longrightarrow> Q (snd (transformationJobErrorHandler C env e w))"
    and po: "\<And>w. Q w \<Longrightarrow> R (snd (postTransformationJob C env w))"
    and cl: "\<And>w. R w \<Longrightarrow> R (snd (cleanupTransformationJob w))"
    and start: "P0 w"
  shows "R (snd (startTransformByQ C env w))"
proof -
  have fin: "R (snd (block [postTransformationJob C env, cleanupTransformationJob] w))"
    if "Q w" for w
    unfolding finalizer_end using that po cl by (auto split: sum.splits)
  show ?thesis
    by (rule run_rule_finalizer[where ?P0.0 = P0 and ?P1.0 = P1 and ?P2.0 = P2 and ?P3.0 = P3
          and ?P4.0 = P4 and ?P5.0 = P5 and E = E and Q = Q and S = R,
          OF sr si up st pp hl h fin start])
qed

lemma run_rule_cleaned:
  assumes sr: "\<And>w. P0 w \<Longrightarrow> P1 (snd (setTransformationToRunningState w))"
    and si: "\<And>w. P1 w \<Longrightarrow> P2 (snd (startInterval w))"
    and up: "triple P2 (preTransformationUploadCode C env) P3 E"
    and st: "\<And>u. triple (P3 u) (startTransformationJob C env u) P4 E"
    and pp: "\<And>j. triple (P4 j) (pollTransformationStatusUntilPlanReady C env j) (\<lambda>_. P5 j) E"
    and hl: "\<And>j. triple (P5 j) (humanInTheLoopRetryLogic C env j) (\<lambda>_. Q) E"
    and h: "\<And>e w. E e w \<Longrightarrow> Q (snd (transformationJobErrorHandler C env e w))"
    and po: "\<And>w. Q w \<Longrightarrow> R (snd (postTransformationJob C env w))"
    and pr: "returns (postTransformationJob C env)"
    and cl: "\<And>w. R w \<Longrightarrow> S (snd (cleanupTransformationJob w))"
    and start: "P0 w"
  shows "S (snd (startTransformByQ C env w))"
proof -
  have fin: "S (snd (block [postTransformationJob C env, cleanupTransformationJob] w))"
    if "Q w" for w
    unfolding finalizer_end using that po cl returnsD[OF pr, of w] by simp
  show ?thesis
    by (rule run_rule_finalizer[where ?P0.0 = P0 and ?P1.0 = P1 and ?P2.0 = P2 and ?P3.0 = P3
          and ?P4.0 = P4 and ?P5.0 = P5 and E = E and Q = Q and S = S,
          OF sr si up st pp hl h fin start])
qed

subsection \<open>Unfolding the operations\<close>

lemmas prim_defs = await_def suspended_def sleep_def invoke_def stopTransformByQ_def stopJob_def
  throwIfCancelled_def clearInterval_def zipCode_def uploadPayload_def startJob_def
  pollTransformationJob_def resumeTransformationJob_def terminateHILEarly_def
  setGenericFailureTextsIfUnset_def setter_defs

lemmas retry_defs = humanInTheLoopRetryLogic_def pollTransformationStatusUntilComplete_def
  initiateHumanInTheLoopPrompt_def initiateHumanInTheLoopPrompt_try_def
  initiateHumanInTheLoopPrompt_catch_def finalizeTransformByQ_def finalizeTransformationJob_def
  transformationJobErrorHandler_def

lemmas op_defs = startTransformByQ_def setTransformationToRunningState_def setContextVariables_def
  startInterval_def preTransformationUploadCode_def zipCode_def uploadPayload_def
  startTransformationJob_def startJob_def pollTransformationStatusUntilPlanReady_def
  pollTransformationJob_def humanInTheLoopRetryLogic_def pollTransformationStatusUntilComplete_def
  finalizeTransformByQ_def finalizeTransformationJob_def transformationJobErrorHandler_def
  postTransformationJob_def postTransformationJob_report_def cleanupTransformationJob_def
  clearInterval_def throwIfCancelled_def setGenericFailureTextsIfUnset_def stopJob_def
  fallible_def isCancelled_def isRunning_def isSucceeded_def isPartiallySucceeded_def

lemmas run_simps = await_eq sleep_eq invoke_eq monad_defs setter_defs Let_def

lemmas eval_simps = run_simps served_def stopped_eq freshInterval_def example_defs

section \<open>Finalization\<close>

lemma finalizeTransformationJob_failing:
  assumes "st \<noteq> ''COMPLETED''" "st \<noteq> ''PARTIALLY_COMPLETED''"
  shows "fst (finalizeTransformationJob C st w) =
           Inl (Error ''Job was not successful nor partially successful'')"
    and "jobPlanProgress (snd (finalizeTransformationJob C st w)) transformCode = Failed"
    and "status (transformByQState (snd (finalizeTransformationJob C st w))) =
           status (transformByQState w)"
  using assms
  by (simp_all add: finalizeTransformationJob_def setGenericFailureTextsIfUnset_def
        monad_defs setter_defs)

lemma handler_status:
  shows "status (transformByQState (snd (transformationJobErrorHandler C env err w))) =
           (if status (transformByQState w) = CANCELLED then CANCELLED
            else if throws env StopJob = None then FAILED
            else status (transformByQState w))"
    and "jobPlanProgress (snd (transformationJobErrorHandler C env err w)) = jobPlanProgress w"
  by (simp_all add: transformationJobErrorHandler_def stopJob_def invoke_def isCancelled_def
        monad_defs setter_defs split: option.splits)

lemma report_progress:
  "preserves (\<lambda>w. jobPlanProgress w = p) (postTransformationJob_report C env)"
  unfolding postTransformationJob_report_def fallible_def setter_defs
  by (intro preserves_intros) simp_all

lemma postTransformationJob_progress:
  "jobPlanProgress (snd (postTransformationJob C env w)) k =
     (if jobPlanProgress w k = Succeeded then Succeeded else Failed)"
proof -
  define w1 where "w1 = snd (block
       [emit UpdateJobHistory,
        whenever (\<lambda>w. jobPlanProgress w uploadCode \<noteq> Succeeded) (setProgress uploadCode Failed),
        whenever (\<lambda>w. jobPlanProgress w buildCode \<noteq> Succeeded) (setProgress buildCode Failed),
        whenever (\<lambda>w. jobPlanProgress w generatePlan \<noteq> Succeeded) (setProgress generatePlan Failed),
        whenever (\<lambda>w. jobPlanProgress w transformCode \<noteq> Succeeded) (setProgress transformCode Failed)] w)"
  have a: "jobPlanProgress w1 k = (if jobPlanProgress w k = Succeeded then Succeeded else Failed)"
    unfolding w1_def by (cases k) (simp_all add: monad_defs setter_defs)
  have b: "snd (postTransformationJob C env w) = snd (postTransformationJob_report C env w1)"
    unfolding w1_def postTransformationJob_def
    by (simp add: monad_defs setter_defs)
  have "jobPlanProgress (snd (postTransformationJob_report C env w1)) = jobPlanProgress w1"
    using preservesD[OF report_progress[where p="jobPlanProgress w1"], of w1] by simp
  then show ?thesis by (simp add: a b)
qed

text \<open>
  C1 (as the code has it). For a status other than \<^verbatim>\<open>COMPLETED\<close> and \<^verbatim>\<open>PARTIALLY_COMPLETED\<close>,
  the finalization marks the plan step \<^verbatim>\<open>transformCode\<close> FAILED and hands the error to the
  error handler. The handler marks the run FAILED, except that a run that is already
  CANCELLED stays CANCELLED, and that nothing is marked when the remote stop call of the
  handler fails. \<^verbatim>\<open>postTransformationJob\<close> then marks every plan step that is not SUCCEEDED as
  FAILED and leaves the SUCCEEDED ones.
\<close>

theorem finalize_marks_failed_unless_cancelled:
  assumes "st \<noteq> ''COMPLETED''" and "st \<noteq> ''PARTIALLY_COMPLETED''"
  shows "jobPlanProgress (snd (finalizeTransformByQ C env st w)) transformCode = Failed \<and>
         status (transformByQState (snd (finalizeTransformByQ C env st w))) =
           (if status (transformByQState w) = CANCELLED then CANCELLED
            else if throws env StopJob = None then FAILED
            else status (transformByQState w)) \<and>
         jobPlanProgress (snd (postTransformationJob C env w')) k =
           (if jobPlanProgress w' k = Succeeded then Succeeded else Failed)"
proof -
  let ?err = "Error ''Job was not successful nor partially successful''"
  obtain w1 where f: "finalizeTransformationJob C st w = (Inl ?err, w1)"
    using finalizeTransformationJob_failing(1)[OF assms, of C w]
    by (cases "finalizeTransformationJob C st w") auto
  have p1: "jobPlanProgress w1 transformCode = Failed"
    using finalizeTransformationJob_failing(2)[OF assms, of C w] f by simp
  have s1: "status (transformByQState w1) = status (transformByQState w)"
    using finalizeTransformationJob_failing(3)[OF assms, of C w] f by simp
  have eq: "finalizeTransformByQ C env st w = transformationJobErrorHandler C env ?err w1"
    by (simp add: finalizeTransformByQ_def try_catch_def f)
  have "jobPlanProgress (snd (transformationJobErrorHandler C env ?err w1)) transformCode = Failed"
    using p1 by (simp add: handler_status(2))
  moreover have "status (transformByQState (snd (transformationJobErrorHandler C env ?err w1))) =
      (if status (transformByQState w) = CANCELLED then CANCELLED
       else if throws env StopJob = None then FAILED
       else status (transformByQState w))"
    by (simp add: handler_status(1) s1)
  ultimately show ?thesis
    by (simp add: eq postTransformationJob_progress)
qed

theorem finalize_marks_failed_unless_cancelled_witness:
  "''STOPPED'' \<noteq> ''COMPLETED'' \<and> ''STOPPED'' \<noteq> ''PARTIALLY_COMPLETED'' \<and>
   jobPlanProgress (snd (finalizeTransformByQ exampleConstants happyEnv ''STOPPED'' runningWorld))
     transformCode = Failed \<and>
   status (transformByQState
     (snd (finalizeTransformByQ exampleConstants happyEnv ''STOPPED'' runningWorld))) = FAILED \<and>
   jobPlanProgress (snd (postTransformationJob exampleConstants happyEnv runningWorld)) uploadCode
     = Failed"
  using finalize_marks_failed_unless_cancelled
          [of "''STOPPED''" exampleConstants happyEnv runningWorld runningWorld uploadCode]
  by (simp add: example_defs)

text \<open>
  The claim as stated fails for a run that is already cancelled: the finalization of a
  \<^verbatim>\<open>STOPPED\<close> job leaves it CANCELLED. (And \<^verbatim>\<open>finalizeTransformationJob\<close> alone never writes the
  status: it throws, and its caller's handler does.)
\<close>

theorem finalize_cancelled_run_counterexample:
  "''STOPPED'' \<noteq> ''COMPLETED'' \<and> ''STOPPED'' \<noteq> ''PARTIALLY_COMPLETED'' \<and>
   status (transformByQState
     (snd (finalizeTransformByQ exampleConstants happyEnv ''STOPPED'' cancelledWorld))) = CANCELLED \<and>
   status (transformByQState
     (snd (finalizeTransformByQ exampleConstants happyEnv ''STOPPED'' cancelledWorld))) \<noteq> FAILED \<and>
   status (transformByQState
     (snd (finalizeTransformationJob exampleConstants ''STOPPED'' cancelledWorld))) \<noteq> FAILED"
  by (simp add: finalizeTransformByQ_def finalizeTransformationJob_def
        transformationJobErrorHandler_def setGenericFailureTextsIfUnset_def isCancelled_def
        falsy_def example_defs monad_defs setter_defs)

section \<open>Polling failures\<close>

lemma planReady_failure_texts:
  assumes "throws env PollPlanReady = Some m"
  shows "jobFailureErrorNotification
           (transformByQState (snd (pollTransformationStatusUntilPlanReady C env jobID w))) =
         (if falsy (jobFailureErrorNotification (transformByQState w))
          then Some (failedToCompleteJobNotification C)
          else jobFailureErrorNotification (transformByQState w))"
    and "jobFailureErrorChatMessage
           (transformByQState (snd (pollTransformationStatusUntilPlanReady C env jobID w))) =
         (if falsy (jobFailureErrorChatMessage (transformByQState w))
          then Some (failedToCompleteJobChatMessage C)
          else jobFailureErrorChatMessage (transformByQState w))"
    and "\<exists>e. fst (pollTransformationStatusUntilPlanReady C env jobID w) = Inl e"
  using assms
  by (simp_all add: pollTransformationStatusUntilPlanReady_def pollTransformationJob_def
        setGenericFailureTextsIfUnset_def await_eq isCancelled_def monad_defs setter_defs Let_def
        split: option.splits)

lemma complete_failure_texts:
  assumes "throws env PollComplete = Some m"
  shows "jobFailureErrorNotification
           (transformByQState (snd (pollTransformationStatusUntilComplete C env jobID w))) =
         (if falsy (jobFailureErrorNotification (transformByQState w))
          then Some (failedToCompleteJobNotification C)
          else jobFailureErrorNotification (transformByQState w))"
    and "jobFailureErrorChatMessage
           (transformByQState (snd (pollTransformationStatusUntilComplete C env jobID w))) =
         (if falsy (jobFailureErrorChatMessage (transformByQState w))
          then Some (failedToCompleteJobChatMessage C)
          else jobFailureErrorChatMessage (transformByQState w))"
    and "fst (pollTransformationStatusUntilComplete C env jobID w) = Inl PollJobError"
  using assms
  by (simp_all add: pollTransformationStatusUntilComplete_def pollTransformationJob_def
        setGenericFailureTextsIfUnset_def await_eq monad_defs setter_defs
        split: option.splits)

lemma retry_failure_texts:
  assumes "throws env PollComplete = Some m"
  shows "jobFailureErrorNotification
           (transformByQState (snd (humanInTheLoopRetryLogic C env jobID w))) =
         (if falsy (jobFailureErrorNotification (transformByQState w))
          then Some (failedToCompleteJobNotification C)
          else jobFailureErrorNotification (transformByQState w))"
    and "jobFailureErrorChatMessage
           (transformByQState (snd (humanInTheLoopRetryLogic C env jobID w))) =
         (if falsy (jobFailureErrorChatMessage (transformByQState w))
          then Some (failedToCompleteJobChatMessage C)
          else jobFailureErrorChatMessage (transformByQState w))"
  using assms
  by (simp_all add: humanInTheLoopRetryLogic_def finalizeTransformByQ_def finalizeTransformationJob_def
        transformationJobErrorHandler_def stopJob_def invoke_eq nullish_def falsy_def
        pollTransformationStatusUntilComplete_def pollTransformationJob_def
        setGenericFailureTextsIfUnset_def await_eq isCancelled_def monad_defs setter_defs
        split: option.splits)


text \<open>
  C8. When a poll fails (the poll for the plan or the poll for completion), the generic
  "job did not complete" notification and chat message are written only where no text is
  set yet: a notification or chat message that is already set (not undefined and not
  empty) is still the one in \<^verbatim>\<open>transformByQState\<close> after the polling function has thrown,
  and also after \<^verbatim>\<open>humanInTheLoopRetryLogic\<close> has finalized the failed run and passed the
  error on.
\<close>

theorem poll_failure_keeps_first_failure_texts:
  assumes "throws env1 PollPlanReady = Some m1" and "throws env2 PollComplete = Some m2"
  shows "jobFailureErrorNotification
           (transformByQState (snd (pollTransformationStatusUntilPlanReady C env1 jobID w))) =
         (if falsy (jobFailureErrorNotification (transformByQState w))
          then Some (failedToCompleteJobNotification C)
          else jobFailureErrorNotification (transformByQState w)) \<and>
         jobFailureErrorChatMessage
           (transformByQState (snd (pollTransformationStatusUntilPlanReady C env1 jobID w))) =
         (if falsy (jobFailureErrorChatMessage (transformByQState w))
          then Some (failedToCompleteJobChatMessage C)
          else jobFailureErrorChatMessage (transformByQState w)) \<and>
         jobFailureErrorNotification
           (transformByQState (snd (pollTransformationStatusUntilComplete C env2 jobID w))) =
         (if falsy (jobFailureErrorNotification (transformByQState w))
          then Some (failedToCompleteJobNotification C)
          else jobFailureErrorNotification (transformByQState w)) \<and>
         jobFailureErrorChatMessage
           (transformByQState (snd (pollTransformationStatusUntilComplete C env2 jobID w))) =
         (if falsy (jobFailureErrorChatMessage (transformByQState w))
          then Some (failedToCompleteJobChatMessage C)
          else jobFailureErrorChatMessage (transformByQState w)) \<and>
         jobFailureErrorNotification
           (transformByQState (snd (humanInTheLoopRetryLogic C env2 jobID w))) =
         (if falsy (jobFailureErrorNotification (transformByQState w))
          then Some (failedToCompleteJobNotification C)
          else jobFailureErrorNotification (transformByQState w)) \<and>
         jobFailureErrorChatMessage
           (transformByQState (snd (humanInTheLoopRetryLogic C env2 jobID w))) =
         (if falsy (jobFailureErrorChatMessage (transformByQState w))
          then Some (failedToCompleteJobChatMessage C)
          else jobFailureErrorChatMessage (transformByQState w))"
  using planReady_failure_texts(1,2)[OF assms(1)] complete_failure_texts(1,2)[OF assms(2)]
    retry_failure_texts[OF assms(2)]
  by simp

theorem poll_failure_keeps_first_failure_texts_witness:
  "throws (failsAtEnv PollPlanReady) PollPlanReady = Some ''timeout'' \<and>
   throws (failsAtEnv PollComplete) PollComplete = Some ''timeout'' \<and>
   jobFailureErrorNotification (transformByQState
     (snd (pollTransformationStatusUntilPlanReady exampleConstants (failsAtEnv PollPlanReady)
        ''J1'' quotaWorld))) = Some ''too many jobs'' \<and>
   jobFailureErrorChatMessage (transformByQState
     (snd (pollTransformationStatusUntilPlanReady exampleConstants (failsAtEnv PollPlanReady)
        ''J1'' quotaWorld))) = Some ''chat: job did not complete'' \<and>
   jobFailureErrorNotification (transformByQState
     (snd (pollTransformationStatusUntilComplete exampleConstants (failsAtEnv PollComplete)
        ''J1'' quotaWorld))) = Some ''too many jobs'' \<and>
   jobFailureErrorNotification (transformByQState
     (snd (humanInTheLoopRetryLogic exampleConstants (failsAtEnv PollComplete)
        ''J1'' quotaWorld))) = Some ''too many jobs''"
  using poll_failure_keeps_first_failure_texts
          [of "failsAtEnv PollPlanReady" "''timeout''" "failsAtEnv PollComplete" "''timeout''"
              exampleConstants "''J1''" quotaWorld]
  by (simp add: failsAtEnv_def quotaWorld_def example_defs falsy_def)

section \<open>Job start\<close>

lemma includes_str_map:
  "includes_str s sub \<Longrightarrow> includes_str (map f s) (map f sub)"
proof (induction s)
  case Nil
  then show ?case by simp
next
  case (Cons c cs)
  show ?case
  proof (cases "take (length sub) (c # cs) = sub")
    case True
    then have "take (length (map f sub)) (map f (c # cs)) = map f sub"
      by (metis length_map take_map)
    then show ?thesis by simp
  next
    case False
    with Cons show ?thesis by simp
  qed
qed

lemma startTransformationJob_failure:
  assumes "throws env StartJob = Some m"
  shows "fst (startTransformationJob C env uploadId w) = Inl JobStartError"
    and "jobFailureErrorNotification
           (transformByQState (snd (startTransformationJob C env uploadId w))) =
         Some (if includes_str (toLowerCase C m) ''too many active running jobs''
               then tooManyJobsNotification C
               else if includes_str (toLowerCase C m) ''lines of code limit breached''
               then linesOfCodeLimitBreachedNotification C
               else failedToStartJobNotification C @ '' '' @ toLowerCase C m)"
    and "jobFailureErrorChatMessage
           (transformByQState (snd (startTransformationJob C env uploadId w))) =
         Some (if includes_str (toLowerCase C m) ''too many active running jobs''
               then tooManyJobsChatMessage C
               else if includes_str (toLowerCase C m) ''lines of code limit breached''
               then linesOfCodeLimitBreachedChatMessage C
               else failedToStartJobChatMessage C @ '' '' @ toLowerCase C m)"
  using assms
  by (simp_all add: startTransformationJob_def startJob_def await_eq monad_defs setter_defs
        Let_def del: includes_str.simps)

lemma start_failure_never_polls:
  assumes "throws env StartJob = Some m"
  shows "preserves (noNew isPoll xs) (startTransformByQ C env)"
proof -
  note wp = watch_isPoll
  have up: "preserves (noNew isPoll xs) (preTransformationUploadCode C env)"
    by (rule noNew_preTransformationUploadCode[OF wp]) simp_all
  have st: "\<And>u. preserves (noNew isPoll xs) (startTransformationJob C env u)"
    by (rule noNew_startTransformationJob[OF wp]) simp_all
  have fails: "\<And>u w. \<exists>e. fst (startTransformationJob C env u w) = Inl e"
    using startTransformationJob_failure(1)[OF assms] by blast
  show ?thesis
    unfolding startTransformByQ_def
    apply (rule preserves_seq[OF noNew_setTransformationToRunningState[OF wp]])
    apply (rule preserves_try_finally)
     apply (rule preserves_try_catch)
      apply (rule preserves_seq[OF noNew_startInterval[OF wp]])
      apply (rule preserves_bind[OF up])
      apply (rule preserves_bind_fails[OF st fails])
     apply (rule noNew_transformationJobErrorHandler[OF wp], simp)
    apply (intro preserves_intros)
     apply (rule noNew_postTransformationJob[OF wp], simp add: isPoll_def)
    apply (rule noNew_cleanupTransformationJob[OF wp]; simp add: isPoll_def)
    done
qed


lemma toLowerCaseLatin1_literals:
  "toLowerCaseLatin1 ''too many active running jobs'' = ''too many active running jobs''"
  "toLowerCaseLatin1 ''lines of code limit breached'' = ''lines of code limit breached''"
  by code_simp+

text \<open>
  The classification looks for the two phrases in the lower-cased message. With the
  lower-casing of the example data, a message that contains a phrase is classified by it
  whatever the case of the rest.
\<close>

lemma includes_str_toLowerCaseLatin1:
  "includes_str m ''too many active running jobs'' \<Longrightarrow>
     includes_str (toLowerCaseLatin1 m) ''too many active running jobs''"
  "includes_str m ''lines of code limit breached'' \<Longrightarrow>
     includes_str (toLowerCaseLatin1 m) ''lines of code limit breached''"
  using includes_str_map[of m _ lowerChar] toLowerCaseLatin1_literals
  unfolding toLowerCaseLatin1_def by metis+

text \<open>
  An example of the generic texts: the message is neither of the two phrases, and it is
  appended in lower case, capitals outside ASCII included (U+00C9 becomes U+00E9).
\<close>

lemma generic_start_failure_text_example:
  "jobFailureErrorNotification (transformByQState (snd (startTransformationJob exampleConstants
          (startFailsEnv (CHR 0xC9 # ''CHEC Du Service'')) ''U1'' idleWorld))) =
     Some (''start failed:'' @ '' '' @ CHR 0xE9 # ''chec du service'')"
proof -
  have hyp: "throws (startFailsEnv (CHR 0xC9 # ''CHEC Du Service'')) StartJob =
      Some (CHR 0xC9 # ''CHEC Du Service'')"
    by (simp add: startFailsEnv_def)
  have lower: "toLowerCase exampleConstants = toLowerCaseLatin1"
    and generic: "failedToStartJobNotification exampleConstants = ''start failed:''"
    by (simp_all add: exampleConstants_def)
  have low: "toLowerCaseLatin1 (CHR 0xC9 # ''CHEC Du Service'') = CHR 0xE9 # ''chec du service''"
    by code_simp
  have other: "\<not> includes_str (CHR 0xE9 # ''chec du service'') ''too many active running jobs''"
    "\<not> includes_str (CHR 0xE9 # ''chec du service'') ''lines of code limit breached''"
    by code_simp+
  show ?thesis
    using startTransformationJob_failure(2)[OF hyp, of exampleConstants "''U1''" idleWorld]
    by (simp only: lower low other generic if_False)
qed

text \<open>
  C4. When the remote start call fails with message \<open>m\<close>, \<^verbatim>\<open>startTransformationJob\<close> sets the
  notification and the chat message by the first phrase found in \<^verbatim>\<open>m.toLowerCase()\<close>
  ("too many active running jobs": the quota texts; else "lines of code limit breached":
  the size-limit texts; else the generic texts followed by \<^verbatim>\<open>m.toLowerCase()\<close>), and raises
  \<^verbatim>\<open>JobStartError\<close>. The whole run then issues no poll of the remote job. This holds for
  every message and whatever \<^verbatim>\<open>toLowerCase\<close> of the platform returns for it.
\<close>

theorem start_failure_is_classified_and_never_polls:
  assumes "throws env StartJob = Some m"
  shows "fst (startTransformationJob C env uploadId w) = Inl JobStartError \<and>
         jobFailureErrorNotification
           (transformByQState (snd (startTransformationJob C env uploadId w))) =
         Some (if includes_str (toLowerCase C m) ''too many active running jobs''
               then tooManyJobsNotification C
               else if includes_str (toLowerCase C m) ''lines of code limit breached''
               then linesOfCodeLimitBreachedNotification C
               else failedToStartJobNotification C @ '' '' @ toLowerCase C m) \<and>
         jobFailureErrorChatMessage
           (transformByQState (snd (startTransformationJob C env uploadId w))) =
         Some (if includes_str (toLowerCase C m) ''too many active running jobs''
               then tooManyJobsChatMessage C
               else if includes_str (toLowerCase C m) ''lines of code limit breached''
               then linesOfCodeLimitBreachedChatMessage C
               else failedToStartJobChatMessage C @ '' '' @ toLowerCase C m) \<and>
         filter isPoll (trace (snd (startTransformByQ C env w))) = filter isPoll (trace w)"
proof -
  have "noNew isPoll (filter isPoll (trace w)) (snd (startTransformByQ C env w))"
    by (rule preservesD[OF start_failure_never_polls[OF assms]]) (simp add: noNew_def)
  then show ?thesis
    using startTransformationJob_failure[OF assms, of C uploadId w]
    by (simp add: noNew_def)
qed

theorem start_failure_is_classified_and_never_polls_witness:
  "throws (startFailsEnv ''Too Many Active Running Jobs'') StartJob =
     Some ''Too Many Active Running Jobs'' \<and>
   fst (startTransformationJob exampleConstants
          (startFailsEnv ''Too Many Active Running Jobs'') ''U1'' idleWorld) =
     Inl JobStartError \<and>
   jobFailureErrorNotification (transformByQState (snd (startTransformationJob exampleConstants
          (startFailsEnv ''Too Many Active Running Jobs'') ''U1'' idleWorld))) =
     Some ''too many jobs'' \<and>
   jobFailureErrorChatMessage (transformByQState (snd (startTransformationJob exampleConstants
          (startFailsEnv ''Too Many Active Running Jobs'') ''U1'' idleWorld))) =
     Some ''chat: too many jobs'' \<and>
   filter isPoll (trace (snd (startTransformByQ exampleConstants
          (startFailsEnv ''Too Many Active Running Jobs'') idleWorld))) = []"
proof -
  have hyp: "throws (startFailsEnv ''Too Many Active Running Jobs'') StartJob =
      Some ''Too Many Active Running Jobs''"
    by (simp add: startFailsEnv_def)
  have lower: "toLowerCase exampleConstants = toLowerCaseLatin1"
    by (simp add: exampleConstants_def)
  have phrase: "includes_str (toLowerCaseLatin1 ''Too Many Active Running Jobs'')
      ''too many active running jobs''"
    by code_simp
  have texts: "tooManyJobsNotification exampleConstants = ''too many jobs''"
    "tooManyJobsChatMessage exampleConstants = ''chat: too many jobs''"
    by (simp_all add: exampleConstants_def)
  have empty: "trace idleWorld = []"
    by (simp add: idleWorld_def)
  show ?thesis
    using start_failure_is_classified_and_never_polls[OF hyp, of exampleConstants "''U1''" idleWorld]
    by (simp only: hyp lower phrase texts empty if_True filter.simps simp_thms)
qed

section \<open>Failures before the job has an id\<close>

lemma handler_stops_current_job:
  "status (transformByQState w) \<noteq> CANCELLED \<Longrightarrow>
   filter isStopJob (trace (snd (transformationJobErrorHandler C env err w))) =
     filter isStopJob (trace w) @ [Remote StopJob (jobId (transformByQState w))]"
  by (simp add: transformationJobErrorHandler_def stopJob_def invoke_eq isCancelled_def
        isStopJob_def monad_defs setter_defs split: option.splits)

lemma served_never: "\<not> cancelAt env p \<Longrightarrow> served C env p w = w"
  by (simp add: served_def)

lemma watch_isStopJob: "watch isStopJob {StopJob}"
  by (auto simp: watch_def isStopJob_def split: event.splits)

lemma stopJob_post: "preserves (noNew isStopJob ys) (postTransformationJob C env)"
  by (rule noNew_postTransformationJob[OF watch_isStopJob]) (simp add: isStopJob_def)

lemma stopJob_cleanup: "preserves (noNew isStopJob ys) cleanupTransformationJob"
  by (rule noNew_cleanupTransformationJob[OF watch_isStopJob]) (simp_all add: isStopJob_def)

lemma beforeStart_running:
  "filter isStopJob (trace w) = xs \<Longrightarrow> beforeStart xs (snd (setTransformationToRunningState w))"
  by (simp add: beforeStart_def setTransformationToRunningState_def setContextVariables_def
        isStopJob_def monad_defs setter_defs)

lemma beforeStart_startInterval:
  "beforeStart xs w \<Longrightarrow> beforeStart xs (snd (startInterval w))"
  by (simp add: beforeStart_def startInterval_def isStopJob_def monad_defs setter_defs)

lemma beforeStart_upload:
  assumes "\<And>p. \<not> cancelAt env p"
  shows "triple (beforeStart xs) (preTransformationUploadCode C env)
           (\<lambda>u w. beforeStart xs w \<and> throws env ZipCode = None \<and> throws env UploadPayload = None)
           (\<lambda>e. beforeStart xs)"
  unfolding triple_def
  by (simp add: beforeStart_def preTransformationUploadCode_def zipCode_def uploadPayload_def
        throwIfCancelled_def isCancelled_def isStopJob_def run_simps served_never[OF assms]
        split: option.splits)

lemma beforeStart_start:
  assumes "\<And>p. \<not> cancelAt env p" and "throws env StartJob = Some m"
  shows "triple (beforeStart xs) (startTransformationJob C env u) (\<lambda>j w. False)
           (\<lambda>e. beforeStart xs)"
  unfolding triple_def using assms(2)
  by (simp add: beforeStart_def startTransformationJob_def startJob_def
        throwIfCancelled_def isCancelled_def isStopJob_def run_simps served_never[OF assms(1)]
        split: option.splits)

text \<open>
  C10. When nobody presses stop and the packaging, the upload or the remote start fails,
  the run calls the remote \<^verbatim>\<open>stopJob\<close> exactly once, from the error handler, and with the
  empty string as job id: the id was reset to the empty string at the start of the run
  and no remote start has assigned one.
\<close>

theorem failure_before_start_stops_empty_job_id:
  assumes never: "\<And>p. \<not> cancelAt env p"
    and fails: "throws env ZipCode = Some m \<or> throws env UploadPayload = Some m \<or>
         throws env StartJob = Some m"
  shows "filter isStopJob (trace (snd (startTransformByQ C env w))) =
           filter isStopJob (trace w) @ [Remote StopJob []]"
proof -
  define xs where "xs = filter isStopJob (trace w)"
  define Q where "Q = noNew isStopJob (xs @ [Remote StopJob []])"
  have "Q (snd (startTransformByQ C env w))"
  proof (rule run_rule[where
        ?P0.0 = "\<lambda>w. filter isStopJob (trace w) = xs" and ?P1.0 = "beforeStart xs"
        and ?P2.0 = "beforeStart xs"
        and ?P3.0 = "\<lambda>u w. beforeStart xs w \<and> (\<exists>m. throws env StartJob = Some m)"
        and ?P4.0 = "\<lambda>j w. False" and ?P5.0 = "\<lambda>j w. False"
        and E = "\<lambda>e. beforeStart xs" and Q = Q and R = Q])
    show "triple (beforeStart xs) (preTransformationUploadCode C env)
        (\<lambda>u w. beforeStart xs w \<and> (\<exists>m. throws env StartJob = Some m)) (\<lambda>e. beforeStart xs)"
      by (rule triple_weaken[OF beforeStart_upload[OF never]]) (use fails in auto)
    show "triple (\<lambda>w. beforeStart xs w \<and> (\<exists>m. throws env StartJob = Some m))
        (startTransformationJob C env u) (\<lambda>j w. False) (\<lambda>e. beforeStart xs)" for u
      using beforeStart_start[OF never] by (auto simp: triple_def)
    show "Q (snd (transformationJobErrorHandler C env e w))" if "beforeStart xs w" for e w
      using that handler_stops_current_job[of w C env e]
      by (simp add: Q_def noNew_def beforeStart_def)
    show "Q (snd (postTransformationJob C env w))" if "Q w" for w
      using that unfolding Q_def by (rule preservesD[OF stopJob_post])
    show "Q (snd (cleanupTransformationJob w))" if "Q w" for w
      using that unfolding Q_def by (rule preservesD[OF stopJob_cleanup])
  qed (simp_all add: triple_def beforeStart_running beforeStart_startInterval xs_def)
  then show ?thesis by (simp add: Q_def noNew_def xs_def)
qed

theorem failure_before_start_stops_empty_job_id_witness:
  "\<not> cancelAt (failsAtEnv ZipCode) ZipCode \<and>
   throws (failsAtEnv ZipCode) ZipCode = Some ''timeout'' \<and>
   filter isStopJob (trace (snd (startTransformByQ exampleConstants (failsAtEnv ZipCode)
     idleWorld))) = [Remote StopJob []]"
  using failure_before_start_stops_empty_job_id
          [of "failsAtEnv ZipCode" "''timeout''" exampleConstants idleWorld]
  by (simp add: failsAtEnv_def example_defs)

section \<open>Cancellation\<close>

lemma handler_keeps_cancelled:
  "status (transformByQState w) = CANCELLED \<Longrightarrow>
   status (transformByQState (snd (transformationJobErrorHandler C env err w))) = CANCELLED"
  by (simp add: handler_status(1))

lemma finalizeTransformationJob_succeeding:
  shows "status (transformByQState (snd (finalizeTransformationJob C ''COMPLETED'' w))) =
           SUCCEEDED"
    and "status (transformByQState (snd (finalizeTransformationJob C ''PARTIALLY_COMPLETED'' w))) =
           PARTIALLY_SUCCEEDED"
  by (simp_all add: finalizeTransformationJob_def monad_defs setter_defs)

text \<open>
  C3 at a failing input. The claim says that a cancelled run is never set to SUCCEEDED
  afterwards. The error handler keeps a cancelled run CANCELLED
  (\<open>handler_keeps_cancelled\<close>), and the stages up to the plan check the cancellation
  after their remote call; but nothing checks it between the completion poll and the
  finalization, and \<^verbatim>\<open>finalizeTransformationJob\<close> sets the status without looking at it.
  Here the user stops the job while the completion poll is pending (the status becomes
  CANCELLED and the remote job is told to stop), the poll returns \<^verbatim>\<open>COMPLETED\<close>, and the run
  is reported as SUCCEEDED.
\<close>

theorem completed_poll_overrides_cancellation:
  "status (transformByQState cancelledWorld) = CANCELLED \<and>
   status (transformByQState
     (snd (finalizeTransformationJob exampleConstants ''COMPLETED'' cancelledWorld))) = SUCCEEDED \<and>
   filter isStopJob (trace (snd (startTransformByQ exampleConstants (stopAtEnv PollComplete)
     idleWorld))) = [Remote StopJob ''J1''] \<and>
   filter isTotalRunTime (trace (snd (startTransformByQ exampleConstants
     (stopAtEnv PollComplete) idleWorld))) = [TotalRunTime SUCCEEDED ''CANCELLED'' True]"
  by (simp add: op_defs eval_simps stopAtEnv_def isTotalRunTime_def isStopJob_def)

section \<open>The plan step of an SQL conversion\<close>










section \<open>Cleanup\<close>

lemma fold_max_ge: "a \<le> fold max xs (a::nat)"
  by (induction xs arbitrary: a) (auto intro: order_trans[OF max.cobounded2])

lemma fold_max_upper: "x \<in> set xs \<Longrightarrow> x \<le> fold max xs (a::nat)"
proof (induction xs arbitrary: a)
  case Nil
  then show ?case by simp
next
  case (Cons y ys)
  show ?case
  proof (cases "x = y")
    case True
    have "y \<le> max y a" by simp
    also have "max y a \<le> fold max ys (max y a)" by (rule fold_max_ge)
    finally show ?thesis using True by simp
  next
    case False
    with Cons.prems have "x \<in> set ys" by simp
    then have "x \<le> fold max ys (max y a)" by (rule Cons.IH)
    then show ?thesis by simp
  qed
qed

lemma freshInterval_fresh: "freshInterval xs \<notin> set xs"
  using fold_max_upper[of "freshInterval xs" xs 0] by (auto simp: freshInterval_def)

lemma timer_upload: "preserves (timerArmed i xs ys zs) (preTransformationUploadCode C env)"
  unfolding preTransformationUploadCode_def prim_defs
  by (intro preserves_intros; simp add: timerArmed_def isClearInterval_def isReset_def)

lemma timer_start: "preserves (timerArmed i xs ys zs) (startTransformationJob C env u)"
  unfolding startTransformationJob_def prim_defs
  by (intro preserves_intros; simp add: timerArmed_def isClearInterval_def isReset_def)

lemma timer_planReady:
  "preserves (timerArmed i xs ys zs) (pollTransformationStatusUntilPlanReady C env j)"
  unfolding pollTransformationStatusUntilPlanReady_def prim_defs
  by (intro preserves_intros; simp add: timerArmed_def isClearInterval_def isReset_def)

lemma timer_retry: "preserves (timerArmed i xs ys zs) (humanInTheLoopRetryLogic C env j)"
  unfolding retry_defs prim_defs
  by (intro preserves_intros; simp add: timerArmed_def isClearInterval_def isReset_def)

lemma timer_handler: "preserves (timerArmed i xs ys zs) (transformationJobErrorHandler C env e)"
  unfolding transformationJobErrorHandler_def prim_defs
  by (intro preserves_intros; simp add: timerArmed_def isClearInterval_def isReset_def)

lemma timer_post: "preserves (timerArmed i xs ys zs) (postTransformationJob C env)"
  unfolding postTransformationJob_def postTransformationJob_report_def fallible_def prim_defs
  by (intro preserves_intros; simp add: timerArmed_def isClearInterval_def isReset_def)

lemma cleanup_eq:
  "cleanupTransformationJob w =
     (Inr (),
      w\<lparr>transformByQState := idleDefaults,
        activeIntervals :=
          (case intervalId (transformByQState w) of None \<Rightarrow> activeIntervals w
           | Some n \<Rightarrow> removeAll n (activeIntervals w)),
        trace := trace w @
          [ClearInterval (intervalId (transformByQState w)),
           SetContext ''gumby.isStopButtonAvailable'' False,
           Command ''aws.amazonq.showPlanProgressInHub'',
           ResetCodeTransformMetaDataField]\<rparr>)"
  by (simp add: cleanupTransformationJob_def clearInterval_def monad_defs setter_defs
        split: option.splits)

text \<open>
  The cleanup never throws, and a second cleanup leaves the world of the first one as it
  is, except for the trace of the second call.
\<close>

lemma cleanup_is_idempotent:
  "fst (cleanupTransformationJob w) = Inr () \<and>
   snd (cleanupTransformationJob (snd (cleanupTransformationJob w))) =
     (snd (cleanupTransformationJob w))
       \<lparr>trace := trace (snd (cleanupTransformationJob (snd (cleanupTransformationJob w))))\<rparr>"
  by (simp add: cleanup_eq idleDefaults_def)

text \<open>
  A run in which \<^verbatim>\<open>postTransformationJob\<close> returns executes the cleanup exactly once,
  whatever the other collaborators do and whichever stage throws: the run adds exactly
  one \<^verbatim>\<open>clearInterval\<close> call to the trace, for the refresh timer that the run started, and
  exactly one reset of the telemetry metadata; the trace ends with the four effects of the
  cleanup, among them the context flag of the stop button set to false; afterwards the
  timer is gone and \<^verbatim>\<open>transformByQState\<close> has its idle defaults.
\<close>

lemma cleanup_runs_once_when_post_returns:
  assumes "throws env RemovePayloadFile = None" and "throws env RemoveBuildLogs = None"
    and "throws env StartReview = None"
  shows "filter isClearInterval (trace (snd (startTransformByQ C env w))) =
           filter isClearInterval (trace w) @
             [ClearInterval (Some (freshInterval (activeIntervals w)))] \<and>
         filter isReset (trace (snd (startTransformByQ C env w))) =
           filter isReset (trace w) @ [ResetCodeTransformMetaDataField] \<and>
         (\<exists>t. trace (snd (startTransformByQ C env w)) =
            t @ [ClearInterval (Some (freshInterval (activeIntervals w))),
                 SetContext ''gumby.isStopButtonAvailable'' False,
                 Command ''aws.amazonq.showPlanProgressInHub'',
                 ResetCodeTransformMetaDataField]) \<and>
         activeIntervals (snd (startTransformByQ C env w)) = activeIntervals w \<and>
         transformByQState (snd (startTransformByQ C env w)) = idleDefaults"
proof -
  define xs where "xs = activeIntervals w"
  define ys where "ys = filter isClearInterval (trace w)"
  define zs where "zs = filter isReset (trace w)"
  define i where "i = freshInterval xs"
  define P where "P = (\<lambda>w::World. activeIntervals w = xs \<and> filter isClearInterval (trace w) = ys \<and>
     filter isReset (trace w) = zs)"
  define S where "S = (\<lambda>w::World. filter isClearInterval (trace w) = ys @ [ClearInterval (Some i)] \<and>
     filter isReset (trace w) = zs @ [ResetCodeTransformMetaDataField] \<and>
     (\<exists>t. trace w = t @ [ClearInterval (Some i),
                 SetContext ''gumby.isStopButtonAvailable'' False,
                 Command ''aws.amazonq.showPlanProgressInHub'',
                 ResetCodeTransformMetaDataField]) \<and>
     activeIntervals w = xs \<and> transformByQState w = idleDefaults)"
  have fresh: "i \<notin> set xs" unfolding i_def by (rule freshInterval_fresh)
  have "S (snd (startTransformByQ C env w))"
  proof (rule run_rule_cleaned[where ?P0.0 = P and ?P1.0 = P and ?P2.0 = "timerArmed i xs ys zs"
        and ?P3.0 = "\<lambda>u. timerArmed i xs ys zs" and ?P4.0 = "\<lambda>j. timerArmed i xs ys zs"
        and ?P5.0 = "\<lambda>j. timerArmed i xs ys zs" and E = "\<lambda>e. timerArmed i xs ys zs"
        and Q = "timerArmed i xs ys zs" and R = "timerArmed i xs ys zs"])
    show "P (snd (setTransformationToRunningState w))" if "P w" for w
      using that
      by (simp add: P_def setTransformationToRunningState_def setContextVariables_def
            isClearInterval_def isReset_def monad_defs setter_defs)
    show "timerArmed i xs ys zs (snd (startInterval w))" if "P w" for w
      using that
      by (simp add: P_def timerArmed_def i_def startInterval_def isClearInterval_def isReset_def
            monad_defs setter_defs)
    show "S (snd (cleanupTransformationJob w))" if "timerArmed i xs ys zs w" for w
      using that fresh
      by (simp add: S_def timerArmed_def cleanup_eq isClearInterval_def isReset_def)
    show "returns (postTransformationJob C env)"
      by (rule returns_postTransformationJob[OF assms])
    show "P w" by (simp add: P_def xs_def ys_def zs_def)
  qed (simp_all add: triple_preserves timer_upload timer_start timer_planReady timer_retry
         preservesD[OF timer_handler] preservesD[OF timer_post])
  then show ?thesis
    by (simp add: S_def xs_def ys_def zs_def i_def)
qed

text \<open>
  A run in which every stage succeeds and the job completes, but the upload ZIP cannot be
  removed at the end: the outcome and the final world.
\<close>

lemma failed_file_removal_run:
  "startTransformByQ exampleConstants removalFailsEnv idleWorld =
     (Inl (Error ''EPERM: operation not permitted''),
      \<lparr>transformByQState =
         \<lparr>status = SUCCEEDED, jobId = ''J1'', polledJobStatus = [],
          transformationType = LANGUAGE_UPGRADE, sourceJDKVersion = [],
          targetJDKVersion = [], projectPath = [],
          payloadFilePath = ''/tmp/payload.zip'', preBuildLogFilePath = [],
          jobFailureErrorNotification = None,
          jobFailureErrorChatMessage = None, intervalId = Some (Suc 0),
          hasSeenTransforming = False\<rparr>,
       jobPlanProgress =
         (\<lambda>_. Pending)
         (generatePlan := Succeeded, transformCode := Succeeded,
          uploadCode := Failed, buildCode := Failed),
       activeIntervals = [Suc 0], detachedRetries = [],
       trace =
         [SetContext ''gumby.wasQCodeTransformationUsed'' True,
          SetContext ''gumby.isStopButtonAvailable'' True,
          SetContext ''gumby.isPlanAvailable'' False,
          SetContext ''gumby.isSummaryAvailable'' False,
          Command ''aws.amazonq.transformationHub.reviewChanges.reset'',
          Command ''workbench.view.extension.aws-codewhisperer-transformation-hub'',
          SetInterval (Suc 0),
          Command ''aws.amazonq.transformationHub.focus'',
          ShowInformationMessage ''started'', Remote ZipCode [],
          Remote UploadPayload ''/tmp/payload.zip'',
          Remote StartJob ''U1'', Remote PollPlanReady ''J1'',
          Remote PollComplete ''J1'',
          Command ''aws.amazonq.transformationHub.reviewChanges.reveal'',
          UpdateJobHistory,
          TransformationFinished (Some ''chat: completed''),
          TotalRunTime SUCCEEDED [] True,
          ShowInformationMessage ''completed'',
          RemoveFile ''/tmp/payload.zip'']\<rparr>)"
  by (simp add: op_defs eval_simps removalFailsEnv_def)

text \<open>
  C7 at a failing input. The claim says that the cleanup is executed on every exit path
  of \<^verbatim>\<open>startTransformByQ\<close>. The cleanup stands in the \<^verbatim>\<open>finally\<close> block, but behind the awaited
  \<^verbatim>\<open>postTransformationJob\<close>: when that call throws, the \<^verbatim>\<open>finally\<close> block is left before the
  cleanup. Here every stage succeeds and the job completes; at the end the upload ZIP
  cannot be removed and \<^verbatim>\<open>fs.rmSync\<close> throws. The run ends with that error and without any
  of the effects of the cleanup: no \<^verbatim>\<open>clearInterval\<close> call and no reset of the telemetry
  metadata, the refresh timer of the run still active, the context flag of the stop button
  still true, and \<^verbatim>\<open>transformByQState\<close> still SUCCEEDED instead of reset. The last three
  conjuncts are the same run with a removable file: there the cleanup happens once.
\<close>

theorem failed_file_removal_skips_cleanup:
  "fst (startTransformByQ exampleConstants removalFailsEnv idleWorld) =
     Inl (Error ''EPERM: operation not permitted'') \<and>
   filter isClearInterval (trace (snd (startTransformByQ exampleConstants removalFailsEnv
     idleWorld))) = [] \<and>
   filter isReset (trace (snd (startTransformByQ exampleConstants removalFailsEnv
     idleWorld))) = [] \<and>
   filter isStopButtonFlag (trace (snd (startTransformByQ exampleConstants removalFailsEnv
     idleWorld))) = [SetContext ''gumby.isStopButtonAvailable'' True] \<and>
   activeIntervals (snd (startTransformByQ exampleConstants removalFailsEnv idleWorld)) =
     [Suc 0] \<and>
   intervalId (transformByQState (snd (startTransformByQ exampleConstants removalFailsEnv
     idleWorld))) = Some (Suc 0) \<and>
   status (transformByQState (snd (startTransformByQ exampleConstants removalFailsEnv
     idleWorld))) = SUCCEEDED \<and>
   filter isClearInterval (trace (snd (startTransformByQ exampleConstants happyEnv
     idleWorld))) = [ClearInterval (Some (Suc 0))] \<and>
   activeIntervals (snd (startTransformByQ exampleConstants happyEnv idleWorld)) = [] \<and>
   status (transformByQState (snd (startTransformByQ exampleConstants happyEnv idleWorld))) =
     NOT_STARTED"
proof -
  have removable: "throws happyEnv RemovePayloadFile = None"
    "throws happyEnv RemoveBuildLogs = None" "throws happyEnv StartReview = None"
    by (simp_all add: happyEnv_def)
  have idle: "activeIntervals idleWorld = []" "trace idleWorld = []"
    by (simp_all add: idleWorld_def)
  show ?thesis
    using cleanup_runs_once_when_post_returns[OF removable, of exampleConstants idleWorld]
    by (simp add: failed_file_removal_run idle isClearInterval_def isReset_def
          isStopButtonFlag_def idleDefaults_def freshInterval_def)
qed

section \<open>Cancellation before polling\<close>

lemma snd_block_emit:
  "snd (block (emit e # ms) w) = snd (block ms (w\<lparr>trace := trace w @ [e]\<rparr>))"
  by (simp add: seq_def bind_def emit_def modify_def)

lemma preserves_blockD: "preserves I (block ms) \<Longrightarrow> I w \<Longrightarrow> I (snd (block ms w))"
  by (rule preservesD)

lemma post_report_totalRunTime:
  "filter isTotalRunTime (trace (snd (postTransformationJob_report C env w))) =
     filter isTotalRunTime (trace w) @
       [TotalRunTime (status (transformByQState w)) (polledJobStatus (transformByQState w))
          (status (transformByQState w) = SUCCEEDED \<or>
           status (transformByQState w) = PARTIALLY_SUCCEEDED)]"
proof -
  have "noNew isTotalRunTime
          (filter isTotalRunTime (trace w) @
             [TotalRunTime (status (transformByQState w)) (polledJobStatus (transformByQState w))
                (status (transformByQState w) = SUCCEEDED \<or>
                 status (transformByQState w) = PARTIALLY_SUCCEEDED)])
          (snd (postTransformationJob_report C env w))"
    unfolding postTransformationJob_report_def inspect_def Let_def id_apply snd_block_emit
    apply (rule preserves_blockD)
     apply (intro preserves_intros noNew_fallible noNew_emit; simp add: isTotalRunTime_def)
    apply (simp add: noNew_def isTotalRunTime_def isSucceeded_def isPartiallySucceeded_def)
    done
  then show ?thesis by (simp add: noNew_def)
qed

lemma post_steps_state:
  "preserves (\<lambda>w. transformByQState w = s \<and> filter isTotalRunTime (trace w) = ts)
     (block
       [emit UpdateJobHistory,
        whenever (\<lambda>w. jobPlanProgress w uploadCode \<noteq> Succeeded) (setProgress uploadCode Failed),
        whenever (\<lambda>w. jobPlanProgress w buildCode \<noteq> Succeeded) (setProgress buildCode Failed),
        whenever (\<lambda>w. jobPlanProgress w generatePlan \<noteq> Succeeded) (setProgress generatePlan Failed),
        whenever (\<lambda>w. jobPlanProgress w transformCode \<noteq> Succeeded) (setProgress transformCode Failed)])"
  unfolding setter_defs
  by (intro preserves_intros; simp add: isTotalRunTime_def)

lemma post_totalRunTime:
  "filter isTotalRunTime (trace (snd (postTransformationJob C env w))) =
     filter isTotalRunTime (trace w) @
       [TotalRunTime (status (transformByQState w)) (polledJobStatus (transformByQState w))
          (status (transformByQState w) = SUCCEEDED \<or>
           status (transformByQState w) = PARTIALLY_SUCCEEDED)]"
proof -
  define steps where "steps = block
       [emit UpdateJobHistory,
        whenever (\<lambda>w. jobPlanProgress w uploadCode \<noteq> Succeeded) (setProgress uploadCode Failed),
        whenever (\<lambda>w. jobPlanProgress w buildCode \<noteq> Succeeded) (setProgress buildCode Failed),
        whenever (\<lambda>w. jobPlanProgress w generatePlan \<noteq> Succeeded) (setProgress generatePlan Failed),
        whenever (\<lambda>w. jobPlanProgress w transformCode \<noteq> Succeeded) (setProgress transformCode Failed)]"
  define w1 where "w1 = snd (steps w)"
  have b: "snd (postTransformationJob C env w) = snd (postTransformationJob_report C env w1)"
    unfolding w1_def steps_def postTransformationJob_def
    by (simp add: monad_defs setter_defs)
  have "transformByQState w1 = transformByQState w \<and>
        filter isTotalRunTime (trace w1) = filter isTotalRunTime (trace w)"
    unfolding w1_def steps_def
    by (rule preservesD[OF post_steps_state]) simp
  then show ?thesis by (simp add: b post_report_totalRunTime)
qed


lemma watch_isStartJob: "watch isStartJob {StartJob}"
  by (auto simp: watch_def isStartJob_def split: event.splits)

lemma calls_post:
  assumes "calls ts ps ss w"
  shows "calls (ts @ [TotalRunTime (status (transformByQState w))
            (polledJobStatus (transformByQState w))
            (status (transformByQState w) = SUCCEEDED \<or>
             status (transformByQState w) = PARTIALLY_SUCCEEDED)]) ps ss
           (snd (postTransformationJob C env w))"
proof -
  have "noNew isPoll ps (snd (postTransformationJob C env w))"
    by (rule preservesD[OF noNew_postTransformationJob[OF watch_isPoll]])
       (use assms in \<open>simp_all add: isPoll_def noNew_def calls_def\<close>)
  moreover have "noNew isStartJob ss (snd (postTransformationJob C env w))"
    by (rule preservesD[OF noNew_postTransformationJob[OF watch_isStartJob]])
       (use assms in \<open>simp_all add: isStartJob_def noNew_def calls_def\<close>)
  ultimately show ?thesis
    using assms by (simp add: calls_def noNew_def post_totalRunTime)
qed

lemma calls_cleanup: "calls ts ps ss w \<Longrightarrow> calls ts ps ss (snd (cleanupTransformationJob w))"
  by (simp add: calls_def cleanup_eq isTotalRunTime_def isPoll_def isStartJob_def)

lemma calls_handler_cancelled:
  assumes "status (transformByQState w) = CANCELLED" and "calls ts ps ss w"
  shows "status (transformByQState (snd (transformationJobErrorHandler C env e w))) = CANCELLED \<and>
         polledJobStatus (transformByQState (snd (transformationJobErrorHandler C env e w))) =
           ''CANCELLED'' \<and>
         calls ts ps ss (snd (transformationJobErrorHandler C env e w))"
  using assms
  by (simp add: transformationJobErrorHandler_def isCancelled_def calls_def
        isTotalRunTime_def isPoll_def isStartJob_def monad_defs setter_defs)

lemma calls_running:
  "calls ts ps ss w \<Longrightarrow>
   status (transformByQState (snd (setTransformationToRunningState w))) = RUNNING \<and>
   calls ts ps ss (snd (setTransformationToRunningState w))"
  by (simp add: setTransformationToRunningState_def setContextVariables_def calls_def
        isTotalRunTime_def isPoll_def isStartJob_def monad_defs setter_defs)

lemma calls_startInterval:
  "status (transformByQState w) = RUNNING \<and> calls ts ps ss w \<Longrightarrow>
   status (transformByQState (snd (startInterval w))) = RUNNING \<and>
   calls ts ps ss (snd (startInterval w))"
  by (simp add: startInterval_def calls_def isTotalRunTime_def isPoll_def isStartJob_def
        monad_defs setter_defs)

lemma upload_when_cancelled:
  assumes "throws env ZipCode = None" and "throws env UploadPayload = None"
  shows "triple (\<lambda>w. status (transformByQState w) = RUNNING \<and> calls ts ps ss w)
           (preTransformationUploadCode C env)
           (\<lambda>u w. \<not> cancelAt env ZipCode \<and> \<not> cancelAt env UploadPayload \<and>
                  u = uploadIdReturned env \<and> calls ts ps ss w \<and>
                  status (transformByQState w) =
                    (if cancelAt env UploadCooldown then CANCELLED else RUNNING))
           (\<lambda>e w. (cancelAt env ZipCode \<or> cancelAt env UploadPayload) \<and>
                  status (transformByQState w) = CANCELLED \<and> calls ts ps ss w)"
  unfolding triple_def using assms
  by (simp add: preTransformationUploadCode_def zipCode_def uploadPayload_def
        throwIfCancelled_def isCancelled_def calls_def run_simps served_status served_filter
        isTotalRunTime_def isPoll_def isStartJob_def)

lemma start_when_cancelled:
  assumes "cancelAt env UploadCooldown \<or> cancelAt env StartJob \<or>
           (cancelAt env StartCooldown \<and> throws env StartJob = None)"
  shows "triple (\<lambda>w. calls ts ps ss w \<and>
                  status (transformByQState w) =
                    (if cancelAt env UploadCooldown then CANCELLED else RUNNING))
           (startTransformationJob C env u)
           (\<lambda>j w. False)
           (\<lambda>e w. status (transformByQState w) = CANCELLED \<and>
                  calls ts ps (ss @ [Remote StartJob u]) w)"
  unfolding triple_def using assms
  by (auto simp add: startTransformationJob_def startJob_def
        throwIfCancelled_def isCancelled_def calls_def run_simps served_status served_filter
        isTotalRunTime_def isPoll_def isStartJob_def split: option.splits)

text \<open>
  What a stop request before the first poll does. The upload completes, and the user
  presses stop at some point between the start of the upload and the end of the cooldown
  that follows the remote start. Then the run never polls, and it is reported as
  CANCELLED. When the stop request comes before the cancellation check that follows the
  upload (during the packaging or the upload), the remote start is not called; when it
  comes later (during the two-second cooldown after that check, or during the
  submission), the remote start is called once.
\<close>

lemma cancellation_before_polling:
  assumes "throws env ZipCode = None" and "throws env UploadPayload = None"
    and "cancelAt env ZipCode \<or> cancelAt env UploadPayload \<or> cancelAt env UploadCooldown \<or>
         cancelAt env StartJob \<or> (cancelAt env StartCooldown \<and> throws env StartJob = None)"
  shows "filter isPoll (trace (snd (startTransformByQ C env w))) = filter isPoll (trace w) \<and>
         filter isTotalRunTime (trace (snd (startTransformByQ C env w))) =
           filter isTotalRunTime (trace w) @ [TotalRunTime CANCELLED ''CANCELLED'' False] \<and>
         filter isStartJob (trace (snd (startTransformByQ C env w))) =
           filter isStartJob (trace w) @
             (if cancelAt env ZipCode \<or> cancelAt env UploadPayload then []
              else [Remote StartJob (uploadIdReturned env)])"
proof -
  define ts where "ts = filter isTotalRunTime (trace w)"
  define ps where "ps = filter isPoll (trace w)"
  define ss where "ss = filter isStartJob (trace w)"
  define ss' where "ss' = ss @ (if cancelAt env ZipCode \<or> cancelAt env UploadPayload then []
              else [Remote StartJob (uploadIdReturned env)])"
  define running where
    "running = (\<lambda>w::World. status (transformByQState w) = RUNNING \<and> calls ts ps ss w)"
  define uploaded where
    "uploaded = (\<lambda>(u::string) (w::World). \<not> cancelAt env ZipCode \<and> \<not> cancelAt env UploadPayload \<and>
                  u = uploadIdReturned env \<and> calls ts ps ss w \<and>
                  status (transformByQState w) =
                    (if cancelAt env UploadCooldown then CANCELLED else RUNNING))"
  define cancelled where
    "cancelled = (\<lambda>w::World. status (transformByQState w) = CANCELLED \<and> calls ts ps ss' w)"
  define handled where
    "handled = (\<lambda>w::World. status (transformByQState w) = CANCELLED \<and>
       polledJobStatus (transformByQState w) = ''CANCELLED'' \<and> calls ts ps ss' w)"
  define reported where
    "reported = calls (ts @ [TotalRunTime CANCELLED ''CANCELLED'' False]) ps ss'"
  have "reported (snd (startTransformByQ C env w))"
  proof (rule run_rule[where ?P0.0 = "calls ts ps ss" and ?P1.0 = running and ?P2.0 = running
        and ?P3.0 = uploaded and ?P4.0 = "\<lambda>j w. False" and ?P5.0 = "\<lambda>j w. False"
        and E = "\<lambda>e. cancelled" and Q = handled and R = reported])
    show "running (snd (setTransformationToRunningState w))" if "calls ts ps ss w" for w
      using calls_running[OF that] by (simp add: running_def)
    show "running (snd (startInterval w))" if "running w" for w
      using calls_startInterval[of w ts ps ss] that by (simp add: running_def)
    show "triple running (preTransformationUploadCode C env) uploaded (\<lambda>e. cancelled)"
      by (rule triple_weaken[OF upload_when_cancelled[OF assms(1,2), of ts ps ss C]])
         (auto simp: running_def uploaded_def cancelled_def ss'_def)
    show "triple (uploaded u) (startTransformationJob C env u) (\<lambda>j w. False) (\<lambda>e. cancelled)"
      for u
    proof (cases "cancelAt env ZipCode \<or> cancelAt env UploadPayload")
      case True
      then show ?thesis by (auto simp: triple_def uploaded_def)
    next
      case False
      with assms(3) have late: "cancelAt env UploadCooldown \<or> cancelAt env StartJob \<or>
           (cancelAt env StartCooldown \<and> throws env StartJob = None)" by blast
      show ?thesis
        unfolding triple_def
      proof (intro allI impI)
        fix w assume up: "uploaded u w"
        then have u: "u = uploadIdReturned env"
          and pre: "calls ts ps ss w \<and> status (transformByQState w) =
                      (if cancelAt env UploadCooldown then CANCELLED else RUNNING)"
          by (simp_all add: uploaded_def)
        show "case fst (startTransformationJob C env u w) of
                Inl e \<Rightarrow> cancelled (snd (startTransformationJob C env u w))
              | Inr j \<Rightarrow> False"
          using tripleD[OF start_when_cancelled[OF late, of ts ps ss C u], of w] pre u False
          by (auto simp: cancelled_def ss'_def split: sum.splits)
      qed
    qed
    show "handled (snd (transformationJobErrorHandler C env e w))" if "cancelled w" for e w
      using calls_handler_cancelled[of w ts ps ss' C env e] that
      by (simp add: cancelled_def handled_def)
    show "reported (snd (postTransformationJob C env w))" if "handled w" for w
      using calls_post[of ts ps ss' w C env] that by (simp add: handled_def reported_def)
    show "reported (snd (cleanupTransformationJob w))" if "reported w" for w
      using that unfolding reported_def by (rule calls_cleanup)
    show "calls ts ps ss w" by (simp add: calls_def ts_def ps_def ss_def)
  qed (simp_all add: triple_False)
  then show ?thesis
    by (simp add: reported_def calls_def ts_def ps_def ss_def ss'_def)
qed

text \<open>
  A run in which the user presses stop during the two-second cooldown that follows the
  upload: the outcome and the final world.
\<close>

lemma stop_during_upload_cooldown_run:
  "startTransformByQ exampleConstants (stopAtEnv UploadCooldown) idleWorld =
     (Inr (),
      \<lparr>transformByQState =
         \<lparr>status = NOT_STARTED, jobId = [], polledJobStatus = [],
          transformationType = LANGUAGE_UPGRADE, sourceJDKVersion = [],
          targetJDKVersion = [], projectPath = [], payloadFilePath = [],
          preBuildLogFilePath = [], jobFailureErrorNotification = None,
          jobFailureErrorChatMessage = None, intervalId = None,
          hasSeenTransforming = False\<rparr>,
       jobPlanProgress =
         (\<lambda>_. Pending)
         (uploadCode := Failed, buildCode := Failed,
          generatePlan := Failed, transformCode := Failed),
       activeIntervals = [], detachedRetries = [],
       trace =
         [SetContext ''gumby.wasQCodeTransformationUsed'' True,
          SetContext ''gumby.isStopButtonAvailable'' True,
          SetContext ''gumby.isPlanAvailable'' False,
          SetContext ''gumby.isSummaryAvailable'' False,
          Command ''aws.amazonq.transformationHub.reviewChanges.reset'',
          Command ''workbench.view.extension.aws-codewhisperer-transformation-hub'',
          SetInterval (Suc 0),
          Command ''aws.amazonq.transformationHub.focus'',
          ShowInformationMessage ''started'', Remote ZipCode [],
          Remote UploadPayload ''/tmp/payload.zip'',
          SetContext ''gumby.isStopButtonAvailable'' False,
          Remote StopJob [], ShowErrorMessage ''cancelled'',
          Remote StartJob ''U1'', ErrorThrown TransformByQStoppedError,
          UpdateJobHistory, TransformationFinished None,
          TotalRunTime CANCELLED ''CANCELLED'' False,
          RemoveFile ''/tmp/payload.zip'', ClearInterval (Some (Suc 0)),
          SetContext ''gumby.isStopButtonAvailable'' False,
          Command ''aws.amazonq.showPlanProgressInHub'',
          ResetCodeTransformMetaDataField]\<rparr>)"
  by (simp add: op_defs eval_simps stopAtEnv_def)

lemma stop_during_upload_cooldown_stage:
  "fst (preTransformationUploadCode exampleConstants (stopAtEnv UploadCooldown) runningWorld) =
     Inr ''U1'' \<and>
   status (transformByQState
     (snd (preTransformationUploadCode exampleConstants (stopAtEnv UploadCooldown)
        runningWorld))) = CANCELLED"
  by (simp add: op_defs eval_simps stopAtEnv_def)

text \<open>
  C5 at a failing input. The claim says that a run in which the cancellation flag is set
  between the completion of the upload and the job start does not issue the start call.
  \<^verbatim>\<open>preTransformationUploadCode\<close> checks the flag and then sleeps for two seconds, where
  \<^verbatim>\<open>startTransformationJob\<close> sleeps and then checks: a stop request during the two seconds
  is seen by no check before the start. Here the user presses stop during that cooldown.
  The upload stage returns the upload id although the run is CANCELLED; the remote stop
  call has gone out with the empty job id, the remote start is issued after it, and the
  job that it starts is never stopped (the error handler leaves a cancelled run alone).
  The run does end before the first poll, reported as CANCELLED. The last conjunct is a
  stop request during the upload, which the check does see: no start call.
\<close>

theorem stop_during_upload_cooldown_starts_the_job:
  "cancelAt (stopAtEnv UploadCooldown) UploadCooldown \<and>
   fst (preTransformationUploadCode exampleConstants (stopAtEnv UploadCooldown) runningWorld) =
     Inr ''U1'' \<and>
   status (transformByQState
     (snd (preTransformationUploadCode exampleConstants (stopAtEnv UploadCooldown)
        runningWorld))) = CANCELLED \<and>
   filter (\<lambda>e. isStopJob e \<or> isStartJob e)
     (trace (snd (startTransformByQ exampleConstants (stopAtEnv UploadCooldown) idleWorld))) =
     [Remote StopJob [], Remote StartJob ''U1''] \<and>
   filter isPoll (trace (snd (startTransformByQ exampleConstants (stopAtEnv UploadCooldown)
     idleWorld))) = [] \<and>
   filter isTotalRunTime (trace (snd (startTransformByQ exampleConstants
     (stopAtEnv UploadCooldown) idleWorld))) = [TotalRunTime CANCELLED ''CANCELLED'' False] \<and>
   filter isStartJob (trace (snd (startTransformByQ exampleConstants (stopAtEnv UploadPayload)
     idleWorld))) = []"
proof -
  have seen: "throws (stopAtEnv UploadPayload) ZipCode = None"
    "throws (stopAtEnv UploadPayload) UploadPayload = None"
    "cancelAt (stopAtEnv UploadPayload) UploadPayload"
    by (simp_all add: stopAtEnv_def happyEnv_def)
  have "filter isStartJob (trace (snd (startTransformByQ exampleConstants
      (stopAtEnv UploadPayload) idleWorld))) = []"
    using cancellation_before_polling[of "stopAtEnv UploadPayload" exampleConstants idleWorld]
      seen
    by (simp add: idleWorld_def)
  moreover have "cancelAt (stopAtEnv UploadCooldown) UploadCooldown"
    by (simp add: stopAtEnv_def)
  ultimately show ?thesis
    using stop_during_upload_cooldown_stage
    by (simp add: stop_during_upload_cooldown_run isStopJob_def isStartJob_def isPoll_def
          isTotalRunTime_def)
qed

section \<open>The dependency prompt (human in the loop)\<close>

lemma try_outcome:
  "fst (initiateHumanInTheLoopPrompt_try C env j w) =
     Inr () \<longleftrightarrow> \<not> hilErrorRaised C env"
  by (simp add: initiateHumanInTheLoopPrompt_try_def hilErrorRaised_def run_simps
        split: option.splits)

lemma try_quiet:
  "preserves (\<lambda>w. filter isResume (trace w) = rs \<and> filter isCleanUpArtifacts (trace w) = cs \<and>
                  detachedRetries w = ds)
     (initiateHumanInTheLoopPrompt_try C env j)"
  unfolding initiateHumanInTheLoopPrompt_try_def prim_defs
  by (intro preserves_intros; simp add: isResume_def isCleanUpArtifacts_def)

lemma catch_effect:
  shows "filter isResume (trace (snd (initiateHumanInTheLoopPrompt_catch C env j err w))) =
           filter isResume (trace w) @ [Remote ResumeRejected j]"
    and "fst (initiateHumanInTheLoopPrompt_catch C env j err w) =
           (case throws env ResumeRejected of
              Some m \<Rightarrow> Inl (Error m)
            | None \<Rightarrow> (case throws env CleanUpArtifacts of
                         Some m \<Rightarrow> Inl (Error m) | None \<Rightarrow> Inr True))"
    and "filter isCleanUpArtifacts
           (trace (snd (initiateHumanInTheLoopPrompt_catch C env j err w))) =
           filter isCleanUpArtifacts (trace w) @
             (if throws env ResumeRejected = None then [Remote CleanUpArtifacts []] else [])"
    and "detachedRetries (snd (initiateHumanInTheLoopPrompt_catch C env j err w)) =
           detachedRetries w"
  by (simp_all add: initiateHumanInTheLoopPrompt_catch_def terminateHILEarly_def
        resumeTransformationJob_def run_simps served_filter isResume_def isCleanUpArtifacts_def
        split: option.splits)

lemma finally_effect:
  shows "fst (block [sleep C env HilSleep, emit (HumanInTheLoopTelemetry j False)] w) = Inr ()"
    and "filter isResume
           (trace (snd (block [sleep C env HilSleep, emit (HumanInTheLoopTelemetry j False)] w))) =
         filter isResume (trace w)"
    and "filter isCleanUpArtifacts
           (trace (snd (block [sleep C env HilSleep, emit (HumanInTheLoopTelemetry j False)] w))) =
         filter isCleanUpArtifacts (trace w)"
    and "detachedRetries
           (snd (block [sleep C env HilSleep, emit (HumanInTheLoopTelemetry j False)] w)) =
         detachedRetries w"
  by (simp_all add: run_simps served_filter isResume_def isCleanUpArtifacts_def)

lemma initiate_effect:
  shows "fst (initiateHumanInTheLoopPrompt C env j w) =
           (if hilErrorRaised C env
            then (case throws env ResumeRejected of
                    Some m \<Rightarrow> Inl (Error m)
                  | None \<Rightarrow> (case throws env CleanUpArtifacts of
                               Some m \<Rightarrow> Inl (Error m) | None \<Rightarrow> Inr True))
            else Inr False)"
    and "filter isResume (trace (snd (initiateHumanInTheLoopPrompt C env j w))) =
           filter isResume (trace w) @
             (if hilErrorRaised C env then [Remote ResumeRejected j] else [])"
    and "filter isCleanUpArtifacts (trace (snd (initiateHumanInTheLoopPrompt C env j w))) =
           filter isCleanUpArtifacts (trace w) @
             (if hilErrorRaised C env \<and> throws env ResumeRejected = None
              then [Remote CleanUpArtifacts []] else [])"
    and "detachedRetries (snd (initiateHumanInTheLoopPrompt C env j w)) = detachedRetries w"
proof -
  define w1 where "w1 = snd (initiateHumanInTheLoopPrompt_try C env j w)"
  have q: "filter isResume (trace w1) = filter isResume (trace w) \<and>
           filter isCleanUpArtifacts (trace w1) = filter isCleanUpArtifacts (trace w) \<and>
           detachedRetries w1 = detachedRetries w"
    unfolding w1_def by (rule preservesD[OF try_quiet]) simp
  show "fst (initiateHumanInTheLoopPrompt C env j w) =
           (if hilErrorRaised C env
            then (case throws env ResumeRejected of
                    Some m \<Rightarrow> Inl (Error m)
                  | None \<Rightarrow> (case throws env CleanUpArtifacts of
                               Some m \<Rightarrow> Inl (Error m) | None \<Rightarrow> Inr True))
            else Inr False)"
    using try_outcome[of C env j w]
    by (cases "fst (initiateHumanInTheLoopPrompt_try C env j w)")
       (simp_all add: initiateHumanInTheLoopPrompt_def outcome_simps finally_effect(1)
          catch_effect(2) ret_def
          del: block.simps)
  show "filter isResume (trace (snd (initiateHumanInTheLoopPrompt C env j w))) =
           filter isResume (trace w) @
             (if hilErrorRaised C env then [Remote ResumeRejected j] else [])"
    using try_outcome[of C env j w] q
    by (cases "fst (initiateHumanInTheLoopPrompt_try C env j w)")
       (simp_all add: initiateHumanInTheLoopPrompt_def outcome_simps finally_effect(2)
          catch_effect(1) ret_def w1_def
          del: block.simps)
  show "filter isCleanUpArtifacts (trace (snd (initiateHumanInTheLoopPrompt C env j w))) =
           filter isCleanUpArtifacts (trace w) @
             (if hilErrorRaised C env \<and> throws env ResumeRejected = None
              then [Remote CleanUpArtifacts []] else [])"
    using try_outcome[of C env j w] q
    by (cases "fst (initiateHumanInTheLoopPrompt_try C env j w)")
       (simp_all add: initiateHumanInTheLoopPrompt_def outcome_simps finally_effect(3)
          catch_effect(3) ret_def w1_def
          del: block.simps)
  show "detachedRetries (snd (initiateHumanInTheLoopPrompt C env j w)) = detachedRetries w"
    using q
    by (cases "fst (initiateHumanInTheLoopPrompt_try C env j w)")
       (simp_all add: initiateHumanInTheLoopPrompt_def outcome_simps finally_effect(4)
          catch_effect(4) ret_def w1_def
          del: block.simps)
qed


lemma bind_attempt: "bind (attempt m) f w = f (fst (m w)) (snd (m w))"
  by (simp add: bind_def attempt_def split: prod.splits)

lemma seq_assoc: "seq (seq a b) c = seq a (seq b c)"
  by (rule ext) (simp add: seq_def bind_def split: prod.splits sum.splits)

lemma seq_ret_left: "seq (ret x) c = c"
  by (rule ext) (simp add: seq_def bind_def ret_def)

lemma finish_try_split:
  "finishHumanInTheLoop_try C env j sel =
     seq (block
            [(if falsy sel then throw (Error ''No dependency selected'') else ret ()),
             await C env CreatePomFileCopy [],
             await C env ReplacePomFileVersion [],
             await C env PrepareProjectDependencies [],
             await C env HilZipCode [],
             await C env HilUploadPayload j,
             emit HumanInTheLoopSelectionUploaded])
         (block [resumeTransformationJob C env j ''COMPLETED'', detach j])"
  by (simp add: finishHumanInTheLoop_try_def seq_assoc seq_ret_left)

lemma finish_steps_outcome:
  "fst (block
          [(if falsy sel then throw (Error ''No dependency selected'') else ret ()),
           await C env CreatePomFileCopy [],
           await C env ReplacePomFileVersion [],
           await C env PrepareProjectDependencies [],
           await C env HilZipCode [],
           await C env HilUploadPayload j,
           emit HumanInTheLoopSelectionUploaded] w) = Inr () \<longleftrightarrow>
   stepsBeforeResumeSucceed env sel"
  by (simp add: stepsBeforeResumeSucceed_def run_simps split: option.splits)

lemma finish_steps_quiet:
  "preserves (\<lambda>w. filter isResume (trace w) = rs)
     (block
        [(if falsy sel then throw (Error ''No dependency selected'') else ret ()),
         await C env CreatePomFileCopy [],
         await C env ReplacePomFileVersion [],
         await C env PrepareProjectDependencies [],
         await C env HilZipCode [],
         await C env HilUploadPayload j,
         emit HumanInTheLoopSelectionUploaded])"
  unfolding prim_defs
  by (intro preserves_intros; simp add: isResume_def)

lemma finish_resume_effect:
  shows "fst (block [resumeTransformationJob C env j ''COMPLETED'', detach j] w) = Inr () \<longleftrightarrow>
           throws env ResumeCompleted = None"
    and "filter isResume
           (trace (snd (block [resumeTransformationJob C env j ''COMPLETED'', detach j] w))) =
         filter isResume (trace w) @ [Remote ResumeCompleted j]"
  by (simp_all add: resumeTransformationJob_def detach_def run_simps served_filter isResume_def
        split: option.splits)

lemma finish_try_effect:
  shows "fst (finishHumanInTheLoop_try C env j sel w) = Inr () \<longleftrightarrow>
           stepsBeforeResumeSucceed env sel \<and> throws env ResumeCompleted = None"
    and "filter isResume (trace (snd (finishHumanInTheLoop_try C env j sel w))) =
           filter isResume (trace w) @
             (if stepsBeforeResumeSucceed env sel then [Remote ResumeCompleted j] else [])"
proof -
  define steps where "steps = block
        [(if falsy sel then throw (Error ''No dependency selected'') else ret ()),
         await C env CreatePomFileCopy [],
         await C env ReplacePomFileVersion [],
         await C env PrepareProjectDependencies [],
         await C env HilZipCode [],
         await C env HilUploadPayload j,
         emit HumanInTheLoopSelectionUploaded]"
  define resume where
    "resume = block [resumeTransformationJob C env j ''COMPLETED'', detach j]"
  have split: "finishHumanInTheLoop_try C env j sel = seq steps resume"
    unfolding steps_def resume_def by (rule finish_try_split)
  have o: "fst (steps w) = Inr () \<longleftrightarrow> stepsBeforeResumeSucceed env sel"
    unfolding steps_def by (rule finish_steps_outcome)
  have q: "filter isResume (trace (snd (steps w))) = filter isResume (trace w)"
    unfolding steps_def by (rule preservesD[OF finish_steps_quiet]) simp
  have r1: "fst (resume w') = Inr () \<longleftrightarrow> throws env ResumeCompleted = None" for w'
    unfolding resume_def by (rule finish_resume_effect(1))
  have r2: "filter isResume (trace (snd (resume w'))) =
      filter isResume (trace w') @ [Remote ResumeCompleted j]" for w'
    unfolding resume_def by (rule finish_resume_effect(2))
  show "fst (finishHumanInTheLoop_try C env j sel w) = Inr () \<longleftrightarrow>
           stepsBeforeResumeSucceed env sel \<and> throws env ResumeCompleted = None"
    using o r1[of "snd (steps w)"]
    by (cases "fst (steps w)") (simp_all add: split fst_seq)
  show "filter isResume (trace (snd (finishHumanInTheLoop_try C env j sel w))) =
           filter isResume (trace w) @
             (if stepsBeforeResumeSucceed env sel then [Remote ResumeCompleted j] else [])"
    using o q r2[of "snd (steps w)"]
    by (cases "fst (steps w)") (simp_all add: split snd_seq)
qed

lemma finish_success_tail:
  "filter isResume
     (trace (snd (seq (block [emit (HumanInTheLoopTelemetry j True), await C env CleanUpArtifacts []])
                      (ret True) w))) =
   filter isResume (trace w)"
  by (simp add: run_simps served_filter isResume_def split: option.splits)

lemma finish_failure_tail:
  "filter isResume
     (trace (snd (seq (try_finally (block [terminateHILEarly C env j, detach j])
                         (block [emit (HumanInTheLoopTelemetry j False),
                                 await C env CleanUpArtifacts []]))
                      (ret False) w))) =
   filter isResume (trace w) @ [Remote ResumeRejected j]"
  by (simp add: terminateHILEarly_def resumeTransformationJob_def detach_def run_simps
        served_filter isResume_def split: option.splits)

lemma finish_effect:
  "filter isResume (trace (snd (finishHumanInTheLoop C env sel w))) =
     filter isResume (trace w) @
       (if stepsBeforeResumeSucceed env sel
        then (if throws env ResumeCompleted = None
              then [Remote ResumeCompleted (jobId (transformByQState w))]
              else [Remote ResumeCompleted (jobId (transformByQState w)),
                    Remote ResumeRejected (jobId (transformByQState w))])
        else [Remote ResumeRejected (jobId (transformByQState w))])"
proof (cases "fst (finishHumanInTheLoop_try C env (jobId (transformByQState w)) sel w)")
  case (Inl e)
  then have "\<not> (stepsBeforeResumeSucceed env sel \<and> throws env ResumeCompleted = None)"
    using finish_try_effect(1)[of C env "jobId (transformByQState w)" sel w] by simp
  then have "stepsBeforeResumeSucceed env sel \<Longrightarrow> throws env ResumeCompleted \<noteq> None"
    by auto
  then show ?thesis
    using Inl finish_try_effect(2)[of C env "jobId (transformByQState w)" sel w]
    by (cases "stepsBeforeResumeSucceed env sel")
       (simp_all add: finishHumanInTheLoop_def reading_def inspect_def Let_def bind_attempt
          finish_failure_tail del: block.simps)
next
  case (Inr u)
  then have "stepsBeforeResumeSucceed env sel \<and> throws env ResumeCompleted = None"
    using finish_try_effect(1)[of C env "jobId (transformByQState w)" sel w] by simp
  then show ?thesis
    using Inr finish_try_effect(2)[of C env "jobId (transformByQState w)" sel w]
    by (simp add: finishHumanInTheLoop_def reading_def inspect_def Let_def bind_attempt
          finish_success_tail del: block.simps)
qed

text \<open>
  C2 (as the code has it). An attempt of \<^verbatim>\<open>initiateHumanInTheLoopPrompt\<close> in which a step
  raises an error calls \<^verbatim>\<open>resumeTransformationJob(jobId, 'REJECTED')\<close> exactly once, and an
  attempt that reaches the prompt calls no resume at all. \<^verbatim>\<open>finishHumanInTheLoop\<close> calls
  resume with \<^verbatim>\<open>REJECTED\<close> exactly once when a step before its resume call fails, and with
  \<^verbatim>\<open>COMPLETED\<close> only when all of them and the resume call itself succeed. When the
  \<^verbatim>\<open>COMPLETED\<close> call itself fails, the \<^verbatim>\<open>catch\<close> block follows it with a \<^verbatim>\<open>REJECTED\<close> call: both
  are then invoked, and at most one of them has succeeded.
\<close>

theorem resume_calls_of_an_attempt:
  "filter isResume (trace (snd (initiateHumanInTheLoopPrompt C env j w))) =
     filter isResume (trace w) @
       (if hilErrorRaised C env then [Remote ResumeRejected j] else []) \<and>
   filter isResume (trace (snd (finishHumanInTheLoop C env sel w))) =
     filter isResume (trace w) @
       (if stepsBeforeResumeSucceed env sel
        then (if throws env ResumeCompleted = None
              then [Remote ResumeCompleted (jobId (transformByQState w))]
              else [Remote ResumeCompleted (jobId (transformByQState w)),
                    Remote ResumeRejected (jobId (transformByQState w))])
        else [Remote ResumeRejected (jobId (transformByQState w))])"
  by (simp only: initiate_effect(2) finish_effect simp_thms)

theorem resume_calls_of_an_attempt_witness:
  "hilErrorRaised exampleConstants (failsAtEnv DownloadHilResultArchive) \<and>
   filter isResume (trace (snd (initiateHumanInTheLoopPrompt exampleConstants
     (failsAtEnv DownloadHilResultArchive) ''J1'' runningWorld))) = [Remote ResumeRejected ''J1''] \<and>
   \<not> stepsBeforeResumeSucceed (failsAtEnv DownloadHilResultArchive) None \<and>
   filter isResume (trace (snd (finishHumanInTheLoop exampleConstants
     (failsAtEnv DownloadHilResultArchive) None runningWorld))) = [Remote ResumeRejected ''J1''] \<and>
   stepsBeforeResumeSucceed happyEnv (Some ''2.0.1'') \<and>
   filter isResume (trace (snd (finishHumanInTheLoop exampleConstants happyEnv (Some ''2.0.1'')
     runningWorld))) = [Remote ResumeCompleted ''J1'']"
  using resume_calls_of_an_attempt[of exampleConstants "failsAtEnv DownloadHilResultArchive"
          "''J1''" runningWorld None]
        resume_calls_of_an_attempt[of exampleConstants happyEnv "''J1''" runningWorld
          "Some ''2.0.1''"]
  by (simp add: hilErrorRaised_def stepsBeforeResumeSucceed_def failsAtEnv_def falsy_def
        example_defs)

text \<open>
  The claim as stated ("never both") fails when the \<^verbatim>\<open>COMPLETED\<close> resume call throws: the
  same attempt then also invokes the \<^verbatim>\<open>REJECTED\<close> call.
\<close>

theorem failed_completed_resume_counterexample:
  "filter isResume (trace (snd (finishHumanInTheLoop exampleConstants
     (failsAtEnv ResumeCompleted) (Some ''2.0.1'') runningWorld))) =
     [Remote ResumeCompleted ''J1'', Remote ResumeRejected ''J1'']"
  by (simp add: finish_effect stepsBeforeResumeSucceed_def failsAtEnv_def falsy_def
        example_defs)

section \<open>Errors of the dependency prompt and the completion loop\<close>

lemma complete_poll_returns:
  assumes "throws env PollComplete = None"
  shows "fst (pollTransformationStatusUntilComplete C env j w) = Inr (completePollStatus env)"
    and "detachedRetries (snd (pollTransformationStatusUntilComplete C env j w)) =
           detachedRetries w"
    and "filter isResume (trace (snd (pollTransformationStatusUntilComplete C env j w))) =
           filter isResume (trace w)"
    and "filter isCleanUpArtifacts
           (trace (snd (pollTransformationStatusUntilComplete C env j w))) =
           filter isCleanUpArtifacts (trace w)"
  using assms
  by (simp_all add: pollTransformationStatusUntilComplete_def pollTransformationJob_def
        run_simps served_filter isResume_def isCleanUpArtifacts_def)

lemma retry_rejecting:
  assumes "rejectingRound C env"
  shows "fst (humanInTheLoopRetryLogic C env j w) = Inr ()"
    and "detachedRetries (snd (humanInTheLoopRetryLogic C env j w)) = detachedRetries w @ [j]"
    and "filter isResume (trace (snd (humanInTheLoopRetryLogic C env j w))) =
           filter isResume (trace w) @ [Remote ResumeRejected j]"
    and "filter isCleanUpArtifacts (trace (snd (humanInTheLoopRetryLogic C env j w))) =
           filter isCleanUpArtifacts (trace w) @ [Remote CleanUpArtifacts []]"
proof -
  from assms have p: "throws env PollComplete = None"
    and paused: "completePollStatus env = ''PAUSED''" and raised: "hilErrorRaised C env"
    and ok: "throws env ResumeRejected = None" "throws env CleanUpArtifacts = None"
    by (simp_all add: rejectingRound_def)
  note facts = complete_poll_returns[OF p] paused raised ok initiate_effect
  show "fst (humanInTheLoopRetryLogic C env j w) = Inr ()"
    by (simp add: humanInTheLoopRetryLogic_def outcome_simps facts detach_def modify_def)
  show "detachedRetries (snd (humanInTheLoopRetryLogic C env j w)) = detachedRetries w @ [j]"
    by (simp add: humanInTheLoopRetryLogic_def outcome_simps facts detach_def modify_def)
  show "filter isResume (trace (snd (humanInTheLoopRetryLogic C env j w))) =
           filter isResume (trace w) @ [Remote ResumeRejected j]"
    by (simp add: humanInTheLoopRetryLogic_def outcome_simps facts detach_def modify_def)
  show "filter isCleanUpArtifacts (trace (snd (humanInTheLoopRetryLogic C env j w))) =
           filter isCleanUpArtifacts (trace w) @ [Remote CleanUpArtifacts []]"
    by (simp add: humanInTheLoopRetryLogic_def outcome_simps facts detach_def modify_def)
qed

lemma finalizeTransformByQ_terminal:
  assumes "throws env StopJob = None"
  shows "isTerminal (status (transformByQState (snd (finalizeTransformByQ C env st w))))"
    and "detachedRetries (snd (finalizeTransformByQ C env st w)) = detachedRetries w"
    and "fst (finalizeTransformByQ C env st w) = Inr ()"
  using assms
  by (simp_all add: finalizeTransformByQ_def finalizeTransformationJob_def
        transformationJobErrorHandler_def setGenericFailureTextsIfUnset_def stopJob_def
        isCancelled_def isTerminal_def run_simps)

lemma complete_poll_detached:
  "detachedRetries (snd (pollTransformationStatusUntilComplete C env j w)) = detachedRetries w"
  by (simp add: pollTransformationStatusUntilComplete_def pollTransformationJob_def
        setGenericFailureTextsIfUnset_def run_simps split: option.splits)

lemma retry_terminal:
  assumes "terminalRound env"
  shows "isTerminal (status (transformByQState (snd (humanInTheLoopRetryLogic C env j w))))"
    and "detachedRetries (snd (humanInTheLoopRetryLogic C env j w)) = detachedRetries w"
proof -
  from assms have stop: "throws env StopJob = None"
    and t: "throws env PollComplete \<noteq> None \<or> completePollStatus env \<noteq> ''PAUSED''"
    by (simp_all add: terminalRound_def)
  define w1 where "w1 = snd (pollTransformationStatusUntilComplete C env j w)"
  have d1: "detachedRetries w1 = detachedRetries w"
    unfolding w1_def by (rule complete_poll_detached)
  have "isTerminal (status (transformByQState (snd (humanInTheLoopRetryLogic C env j w)))) \<and>
        detachedRetries (snd (humanInTheLoopRetryLogic C env j w)) = detachedRetries w"
  proof (cases "throws env PollComplete")
    case None
    with t have np: "completePollStatus env \<noteq> ''PAUSED''" by simp
    show ?thesis
      using np finalizeTransformByQ_terminal[OF stop, of C "completePollStatus env" w1] d1
      by (simp add: humanInTheLoopRetryLogic_def outcome_simps complete_poll_returns(1)[OF None]
            w1_def)
  next
    case (Some m)
    show ?thesis
      using finalizeTransformByQ_terminal[OF stop, of C "''FAILED''" w1] d1
      by (simp add: humanInTheLoopRetryLogic_def outcome_simps complete_failure_texts(3)[OF Some]
            w1_def throw_def)
  qed
  then show "isTerminal (status (transformByQState (snd (humanInTheLoopRetryLogic C env j w))))"
    and "detachedRetries (snd (humanInTheLoopRetryLogic C env j w)) = detachedRetries w"
    by simp_all
qed

lemma detached_reaches_terminal:
  assumes "list_all (rejectingRound C) envs" and "terminalRound env'"
    and "detachedRetries w = [j]"
  shows "\<exists>w'. runDetached C (envs @ [env']) w = Some w' \<and>
              isTerminal (status (transformByQState w')) \<and> detachedRetries w' = []"
  using assms
proof (induction envs arbitrary: w)
  case Nil
  let ?w = "snd (humanInTheLoopRetryLogic C env' j (w\<lparr>detachedRetries := []\<rparr>))"
  have "detachedRetries ?w = []" and "isTerminal (status (transformByQState ?w))"
    using retry_terminal[OF Nil.prems(2), of C j "w\<lparr>detachedRetries := []\<rparr>"] by simp_all
  then show ?case using Nil.prems(3) by simp
next
  case (Cons env envs)
  let ?w = "snd (humanInTheLoopRetryLogic C env j (w\<lparr>detachedRetries := []\<rparr>))"
  from Cons.prems(1) have r: "rejectingRound C env" and rs: "list_all (rejectingRound C) envs"
    by simp_all
  have "detachedRetries ?w = [j]"
    using retry_rejecting(2)[OF r, of j "w\<lparr>detachedRetries := []\<rparr>"] by simp
  from Cons.IH[OF rs Cons.prems(2) this] show ?case
    using Cons.prems(3) by simp
qed


lemma status_poll:
  "preserves (\<lambda>w. status (transformByQState w) = s \<or> status (transformByQState w) = CANCELLED)
     (pollTransformationStatusUntilComplete C env j)"
  unfolding pollTransformationStatusUntilComplete_def prim_defs
  by (intro preserves_intros; simp)

lemma status_initiate:
  "preserves (\<lambda>w. status (transformByQState w) = s \<or> status (transformByQState w) = CANCELLED)
     (initiateHumanInTheLoopPrompt C env j)"
  unfolding initiateHumanInTheLoopPrompt_def initiateHumanInTheLoopPrompt_try_def
    initiateHumanInTheLoopPrompt_catch_def prim_defs
  by (intro preserves_intros; simp)

lemma retry_rejecting_status:
  assumes "rejectingRound C env"
  shows "status (transformByQState (snd (humanInTheLoopRetryLogic C env j w))) =
           status (transformByQState w) \<or>
         status (transformByQState (snd (humanInTheLoopRetryLogic C env j w))) = CANCELLED"
proof -
  from assms have p: "throws env PollComplete = None"
    and paused: "completePollStatus env = ''PAUSED''" and raised: "hilErrorRaised C env"
    and ok: "throws env ResumeRejected = None" "throws env CleanUpArtifacts = None"
    by (simp_all add: rejectingRound_def)
  define w1 where "w1 = snd (pollTransformationStatusUntilComplete C env j w)"
  define w2 where "w2 = snd (initiateHumanInTheLoopPrompt C env j w1)"
  have "status (transformByQState w1) = status (transformByQState w) \<or>
        status (transformByQState w1) = CANCELLED"
    unfolding w1_def by (rule preservesD[OF status_poll]) simp
  then have "status (transformByQState w2) = status (transformByQState w) \<or>
        status (transformByQState w2) = CANCELLED"
    unfolding w2_def by (rule preservesD[OF status_initiate])
  moreover have "status (transformByQState (snd (humanInTheLoopRetryLogic C env j w))) =
      status (transformByQState w2)"
    by (simp add: humanInTheLoopRetryLogic_def outcome_simps complete_poll_returns(1)[OF p]
          paused raised ok initiate_effect(1) detach_def modify_def w1_def w2_def)
  ultimately show ?thesis by simp
qed

text \<open>
  C6 (as the code has it). Let a step of the dependency prompt raise an error (the
  sentinel for "no versions available" is one), and let the two recovery calls of the
  \<^verbatim>\<open>catch\<close> block succeed. Then \<^verbatim>\<open>initiateHumanInTheLoopPrompt\<close> does not throw: it resumes the
  remote job with \<^verbatim>\<open>REJECTED\<close> (once), removes the artifacts of the prompt and returns true;
  \<^verbatim>\<open>humanInTheLoopRetryLogic\<close> returns normally, leaves the status of the run alone (unless
  the user has stopped it meanwhile), and starts the completion loop again as a detached
  call. A detached loop whose rounds all end this way until one round's poll fails or
  returns a status other than \<^verbatim>\<open>PAUSED\<close> (with the remote stop call of the error handler
  succeeding) returns, with the run in a terminal state and no loop left pending.
\<close>

theorem hil_error_is_contained_when_recovery_succeeds:
  assumes "rejectingRound C env" and "list_all (rejectingRound C) envs"
    and "terminalRound env'" and "detachedRetries w2 = [j]"
  shows "fst (initiateHumanInTheLoopPrompt C env j w) = Inr True \<and>
         filter isResume (trace (snd (initiateHumanInTheLoopPrompt C env j w))) =
           filter isResume (trace w) @ [Remote ResumeRejected j] \<and>
         filter isCleanUpArtifacts (trace (snd (initiateHumanInTheLoopPrompt C env j w))) =
           filter isCleanUpArtifacts (trace w) @ [Remote CleanUpArtifacts []] \<and>
         fst (humanInTheLoopRetryLogic C env j w) = Inr () \<and>
         detachedRetries (snd (humanInTheLoopRetryLogic C env j w)) = detachedRetries w @ [j] \<and>
         (status (transformByQState (snd (humanInTheLoopRetryLogic C env j w))) =
            status (transformByQState w) \<or>
          status (transformByQState (snd (humanInTheLoopRetryLogic C env j w))) = CANCELLED) \<and>
         (\<exists>w'. runDetached C (envs @ [env']) w2 = Some w' \<and>
               isTerminal (status (transformByQState w')) \<and> detachedRetries w' = [])"
proof -
  from assms(1) have raised: "hilErrorRaised C env"
    and ok: "throws env ResumeRejected = None" "throws env CleanUpArtifacts = None"
    by (simp_all add: rejectingRound_def)
  show ?thesis
    using retry_rejecting(1,2)[OF assms(1), of j w] retry_rejecting_status[OF assms(1), of j w]
      detached_reaches_terminal[OF assms(2,3,4)]
    by (simp add: initiate_effect raised ok)
qed

theorem hil_error_is_contained_when_recovery_succeeds_witness:
  "rejectingRound exampleConstants noVersionsEnv \<and>
   list_all (rejectingRound exampleConstants) [noVersionsEnv] \<and>
   terminalRound happyEnv \<and> detachedRetries pendingWorld = [''J1''] \<and>
   versionsStatus noVersionsEnv = dependencyNoAvailableVersions exampleConstants \<and>
   fst (initiateHumanInTheLoopPrompt exampleConstants noVersionsEnv ''J1'' runningWorld) =
     Inr True \<and>
   filter isResume (trace (snd (initiateHumanInTheLoopPrompt exampleConstants noVersionsEnv
     ''J1'' runningWorld))) = [Remote ResumeRejected ''J1''] \<and>
   fst (humanInTheLoopRetryLogic exampleConstants noVersionsEnv ''J1'' runningWorld) = Inr () \<and>
   detachedRetries (snd (humanInTheLoopRetryLogic exampleConstants noVersionsEnv ''J1''
     runningWorld)) = [''J1''] \<and>
   (\<exists>w'. runDetached exampleConstants [noVersionsEnv, happyEnv] pendingWorld = Some w' \<and>
         isTerminal (status (transformByQState w')) \<and> detachedRetries w' = [])"
proof -
  have r: "rejectingRound exampleConstants noVersionsEnv"
    by (simp add: rejectingRound_def hilErrorRaised_def noVersionsEnv_def example_defs)
  have t: "terminalRound happyEnv"
    by (simp add: terminalRound_def happyEnv_def)
  have p: "detachedRetries pendingWorld = [''J1'']"
    by (simp add: pendingWorld_def idleWorld_def)
  have l: "list_all (rejectingRound exampleConstants) [noVersionsEnv]"
    using r by simp
  have s: "versionsStatus noVersionsEnv = dependencyNoAvailableVersions exampleConstants"
    by (simp add: noVersionsEnv_def example_defs)
  have e: "filter isResume (trace runningWorld) = []" "detachedRetries runningWorld = []"
    by (simp_all add: example_defs)
  show ?thesis
    using hil_error_is_contained_when_recovery_succeeds[OF r l t p, of runningWorld]
      r l t p s e
    by simp
qed

text \<open>
  The claim as stated fails for an error of the recovery itself: when the \<^verbatim>\<open>REJECTED\<close>
  resume call throws, \<^verbatim>\<open>initiateHumanInTheLoopPrompt\<close> throws, no artifact is removed, the
  completion loop is not entered again, and the run is finalized as FAILED.
\<close>

theorem failed_rejection_aborts_the_job_counterexample:
  "fst (initiateHumanInTheLoopPrompt exampleConstants noVersionsResumeFailsEnv ''J1''
     runningWorld) = Inl (Error ''timeout'') \<and>
   fst (humanInTheLoopRetryLogic exampleConstants noVersionsResumeFailsEnv ''J1'' runningWorld) =
     Inl (Error ''timeout'') \<and>
   status (transformByQState (snd (humanInTheLoopRetryLogic exampleConstants
     noVersionsResumeFailsEnv ''J1'' runningWorld))) = FAILED \<and>
   detachedRetries (snd (humanInTheLoopRetryLogic exampleConstants noVersionsResumeFailsEnv
     ''J1'' runningWorld)) = [] \<and>
   filter isCleanUpArtifacts (trace (snd (humanInTheLoopRetryLogic exampleConstants
     noVersionsResumeFailsEnv ''J1'' runningWorld))) = []"
  by (simp add: retry_defs prim_defs
        monad_defs noVersionsResumeFailsEnv_def noVersionsEnv_def example_defs falsy_def
        nullish_def isCleanUpArtifacts_def isCancelled_def isRunning_def)


end
